theory Spec2Isabelle
  imports Complex_Main "HOL-Library.AList"
begin

section \<open>Conventions of the embedding\<close>

text \<open>
  The Python sources of the bull-market agent are embedded as HOL functions.
  \<^item> Python \<open>float\<close> and \<open>int\<close> values are \<open>real\<close> and \<open>int\<close>; rounding of
    floating-point arithmetic is not modelled.
  \<^item> A raised exception is the \<open>Inl\<close> branch of a sum; a method that mutates its
    object returns the object as it is left, also when it raises.
  \<^item> A \<open>dict\<close> whose iteration order is observed is an association list in
    insertion order (\<open>AList.update\<close> keeps the place of an existing key and appends
    a new one, as Python does).
  \<^item> Readings of the wall clock (\<open>datetime.now()\<close>) and draws of the random
    generator are inputs of the functions that take them.
  \<^item> Human-readable text fields of signals and trade records (reason, plans,
    summaries) are formatted strings that no modelled operation reads; they are left out
    of the records. Logging is a no-op.
\<close>

section \<open>Dates and times\<close>

text \<open>\<open>datetime.time\<close>: compared as the tuple (hour, minute, second, microsecond).\<close>

record time =
  hour :: nat
  minute :: nat
  second :: nat
  microsecond :: nat

definition mk_time :: "nat \<Rightarrow> nat \<Rightarrow> time" where
  "mk_time h m = \<lparr>hour = h, minute = m, second = 0, microsecond = 0\<rparr>"

definition time_le :: "time \<Rightarrow> time \<Rightarrow> bool" where
  "time_le a b =
     (hour a < hour b \<or> (hour a = hour b \<and>
       (minute a < minute b \<or> (minute a = minute b \<and>
         (second a < second b \<or> (second a = second b \<and>
           microsecond a \<le> microsecond b))))))"

definition time_lt :: "time \<Rightarrow> time \<Rightarrow> bool" where
  "time_lt a b = (time_le a b \<and> a \<noteq> b)"

text \<open>
  A naive \<open>datetime\<close>: the proleptic Gregorian ordinal of its date
  (\<open>date.toordinal()\<close>, day 1 is Monday 0001-01-01) and its time of day.
\<close>

record datetime =
  dt_ordinal :: int
  dt_time :: time

definition datetime_le :: "datetime \<Rightarrow> datetime \<Rightarrow> bool" where
  "datetime_le a b =
     (dt_ordinal a < dt_ordinal b \<or>
      (dt_ordinal a = dt_ordinal b \<and> time_le (dt_time a) (dt_time b)))"

definition weekday :: "datetime \<Rightarrow> int" where
  "weekday d = (dt_ordinal d + 6) mod 7"

text \<open>\<open>(a - b).days\<close>: the whole days of the difference, rounded towards minus infinity.\<close>

definition days_between :: "datetime \<Rightarrow> datetime \<Rightarrow> int" where
  "days_between a b =
     (if time_le (dt_time b) (dt_time a) then dt_ordinal a - dt_ordinal b
      else dt_ordinal a - dt_ordinal b - 1)"

section \<open>Exceptions\<close>

text \<open>
  The messages of the \<open>ValueError\<close>s the domain objects raise: the two of
  \<open>TradingSignal.__post_init__\<close>, the two of \<open>AnalysisConfig.__post_init__\<close> and the two
  of \<open>Portfolio.remove_position\<close> (with the values the message is formatted from).
\<close>

datatype message =
    ConfidenceOutOfRange
  | PriceNotPositive
  | ThresholdOutOfRange
  | MaxPositionOutOfRange
  | NoPositionFound string
  | SellExceedsPosition int int

datatype error =
    ValueError message
  | ZeroDivisionError
  | AttributeError string
  | FrozenInstanceError string
  | OverflowError
  | KeyError string
  | OtherException string

section \<open>Value objects and entities\<close>

datatype SignalAction = BUY | SELL | HOLD | STOP_LOSS | TAKE_PROFIT

datatype RiskLevel = LOW | MEDIUM | HIGH

record Position =
  quantity :: int
  avg_cost :: real
  total_cost :: real
  entry_date :: datetime
  last_update :: datetime

record Portfolio =
  cash :: real
  positions :: "(string \<times> Position) list"
  total_value :: real
  daily_pnl :: real
  total_pnl :: real

text \<open>\<open>Portfolio()\<close> with the dataclass defaults.\<close>

definition Portfolio_default :: Portfolio where
  "Portfolio_default =
     \<lparr>cash = 100000, positions = [], total_value = 100000, daily_pnl = 0, total_pnl = 0\<rparr>"

text \<open>
  \<open>Portfolio.add_position\<close>. The only statement that can raise is the division
  \<open>total_cost / total_quantity\<close> of the branch for an existing position; it comes before
  any write, so a failed call leaves the portfolio as it was. \<open>now\<close> is the reading of
  the clock.
\<close>

definition add_position ::
  "datetime \<Rightarrow> string \<Rightarrow> int \<Rightarrow> real \<Rightarrow> real \<Rightarrow> Portfolio \<Rightarrow> (error + unit) \<times> Portfolio" where
  "add_position now symbol qty price commission p =
     (case map_of (positions p) symbol of
        Some existing \<Rightarrow>
          (let total_quantity = quantity existing + qty;
               total_cost' = total_cost existing + (real_of_int qty * price) + commission
           in if total_quantity = 0 then (Inl ZeroDivisionError, p)
              else
                (Inr (),
                 p\<lparr>positions := AList.update symbol
                      (existing\<lparr>quantity := total_quantity,
                                 avg_cost := total_cost' / real_of_int total_quantity,
                                 total_cost := total_cost',
                                 last_update := now\<rparr>)
                      (positions p)\<rparr>))
      | None \<Rightarrow>
          (Inr (),
           p\<lparr>positions := AList.update symbol
                \<lparr>quantity = qty,
                 avg_cost = price,
                 total_cost = real_of_int qty * price + commission,
                 entry_date = now,
                 last_update = now\<rparr>
                (positions p)\<rparr>))"

text \<open>
  \<open>Portfolio.remove_position\<close>: both checks raise \<open>ValueError\<close> before any write;
  otherwise the position is updated in place and deleted when its quantity reaches zero,
  and the realised profit or loss is returned.
\<close>

definition remove_position ::
  "datetime \<Rightarrow> string \<Rightarrow> int \<Rightarrow> real \<Rightarrow> real \<Rightarrow> Portfolio \<Rightarrow> (error + real) \<times> Portfolio" where
  "remove_position now symbol qty price commission p =
     (case map_of (positions p) symbol of
        None \<Rightarrow> (Inl (ValueError (NoPositionFound symbol)), p)
      | Some position \<Rightarrow>
          if qty > quantity position
          then (Inl (ValueError (SellExceedsPosition qty (quantity position))), p)
          else
            (let sell_amount = real_of_int qty * price;
                 cost_basis = real_of_int qty * avg_cost position;
                 profit_loss = sell_amount - cost_basis - commission;
                 position' = position\<lparr>quantity := quantity position - qty,
                                        total_cost := total_cost position - cost_basis,
                                        last_update := now\<rparr>
             in (Inr profit_loss,
                 p\<lparr>positions :=
                      (if quantity position' = 0 then AList.delete symbol (positions p)
                       else AList.update symbol position' (positions p))\<rparr>)))"




definition midnight :: "int \<Rightarrow> datetime" where
  "midnight d = \<lparr>dt_ordinal = d, dt_time = mk_time 0 0\<rparr>"

record AnalysisConfig =
  sectors :: "string list"
  confidence_threshold :: real
  max_position_size :: real
  enable_parallel :: bool
  max_workers :: int
  analysis_timeout :: int
  enable_caching :: bool
  cache_ttl :: int

text \<open>\<open>AnalysisConfig.__post_init__\<close>: the validation run by the constructor.\<close>

definition AnalysisConfig_post_init :: "AnalysisConfig \<Rightarrow> error + AnalysisConfig" where
  "AnalysisConfig_post_init c =
     (if \<not> (0 < confidence_threshold c \<and> confidence_threshold c \<le> 100)
      then Inl (ValueError ThresholdOutOfRange)
      else if \<not> (0 < max_position_size c \<and> max_position_size c \<le> 1)
      then Inl (ValueError MaxPositionOutOfRange)
      else Inr c)"

text \<open>
  \<open>MarketData\<close>; \<open>additional_data\<close> is the dictionary of optional numeric fields, of which
  the strategies read \<open>avg_volume\<close>.
\<close>

record MarketData =
  md_symbol :: string
  md_name :: string
  md_price :: real
  md_change_pct :: real
  md_volume :: int
  md_amount :: real
  md_sector :: string
  md_timestamp :: datetime
  additional_data :: "string \<rightharpoonup> real"

text \<open>\<open>additional_data.get(key, default)\<close>.\<close>

definition get_additional :: "MarketData \<Rightarrow> string \<Rightarrow> real \<Rightarrow> real" where
  "get_additional md key dflt = (case additional_data md key of Some v \<Rightarrow> v | None \<Rightarrow> dflt)"

record TradingSignal =
  symbol :: string
  name :: string
  sector :: string
  action :: SignalAction
  confidence :: real
  price :: real
  timestamp :: datetime
  risk_level :: RiskLevel
  position_size_pct :: real

text \<open>
  \<open>TradingSignal.__post_init__\<close>: every construction of a signal goes through it, so a
  constructor call is \<open>TradingSignal_post_init\<close> of the record of its arguments.
\<close>

definition TradingSignal_post_init :: "TradingSignal \<Rightarrow> error + TradingSignal" where
  "TradingSignal_post_init s =
     (if \<not> (0 \<le> confidence s \<and> confidence s \<le> 100) then Inl (ValueError ConfidenceOutOfRange)
      else if price s \<le> 0 then Inl (ValueError PriceNotPositive)
      else Inr s)"

section \<open>Strategies\<close>

text \<open>
  The readings one call of a strategy takes from outside: the clock, the value of
  \<open>random.uniform(0, 100)\<close> and the value of \<open>random.random()\<close>.
\<close>

record world =
  clock_now :: datetime
  uniform_0_100 :: real
  random_0_1 :: real

text \<open>
  \<open>BaseStrategy._get_time_slot\<close>: the dictionary of slots is walked in insertion order
  and the first slot whose closed interval holds the time wins.
\<close>

definition time_slots :: "(string \<times> time \<times> time) list" where
  "time_slots =
     [(''early_morning'', mk_time 9 15, mk_time 9 30),
      (''morning_session'', mk_time 9 30, mk_time 11 30),
      (''afternoon_session'', mk_time 13 0, mk_time 14 30),
      (''late_afternoon'', mk_time 14 30, mk_time 15 0)]"

fun find_time_slot :: "(string \<times> time \<times> time) list \<Rightarrow> time \<Rightarrow> string" where
  "find_time_slot [] current_t = ''non_trading''"
| "find_time_slot ((slot_name, start_time, end_time) # rest) current_t =
     (if time_le start_time current_t \<and> time_le current_t end_time then slot_name
      else find_time_slot rest current_t)"

definition get_time_slot :: "datetime \<Rightarrow> string" where
  "get_time_slot current_time = find_time_slot time_slots (dt_time current_time)"

definition calculate_position_size :: "TradingSignal \<Rightarrow> AnalysisConfig \<Rightarrow> real" where
  "calculate_position_size signal config =
     (let base_size = max_position_size config;
          confidence_factor = confidence signal / 100
      in base_size * confidence_factor)"

text \<open>
  The signal the strategies build only to pass to \<open>_calculate_position_size\<close>:
  \<open>TradingSignal("", "", "", action, confidence, 0, "", datetime.now())\<close>, with price 0.
\<close>

definition sizing_signal :: "world \<Rightarrow> SignalAction \<Rightarrow> real \<Rightarrow> error + TradingSignal" where
  "sizing_signal w a c =
     TradingSignal_post_init
       \<lparr>symbol = [], name = [], sector = [], action = a, confidence = c, price = 0,
        timestamp = clock_now w, risk_level = MEDIUM, position_size_pct = 0\<rparr>"

datatype strategy =
    BaseStrategy
  | TPlusOneStrategy
  | MomentumStrategy
  | VolumeStrategy
  | SentimentStrategy

definition early_morning_strategy ::
  "world \<Rightarrow> MarketData \<Rightarrow> AnalysisConfig \<Rightarrow> error + TradingSignal option" where
  "early_morning_strategy w market_data config =
     (if md_change_pct market_data < -2 then
        map_sum id Some
          (TradingSignal_post_init
             \<lparr>symbol = md_symbol market_data, name = md_name market_data,
              sector = md_sector market_data, action = SELL, confidence = 85,
              price = md_price market_data, timestamp = clock_now w, risk_level = LOW,
              position_size_pct = 0\<rparr>)
      else Inr None)"

text \<open>
  The arguments of the constructor are evaluated in the order written: the
  \<open>detailed_reasons\<close> (which divide the volume by \<open>avg_volume\<close>, default 1) before
  \<open>position_size_pct\<close> (which builds the sizing signal).
\<close>

definition intraday_trading_strategy ::
  "world \<Rightarrow> MarketData \<Rightarrow> AnalysisConfig \<Rightarrow> error + TradingSignal option" where
  "intraday_trading_strategy w market_data config =
     (if md_change_pct market_data > 3
         \<and> real_of_int (md_volume market_data) > get_additional market_data ''avg_volume'' 0 * 1.5
      then
        if get_additional market_data ''avg_volume'' 1 = 0 then Inl ZeroDivisionError
        else
          (case sizing_signal w HOLD 75 of
             Inl e \<Rightarrow> Inl e
           | Inr sz \<Rightarrow>
               map_sum id Some
                 (TradingSignal_post_init
                    \<lparr>symbol = md_symbol market_data, name = md_name market_data,
                     sector = md_sector market_data, action = HOLD, confidence = 75,
                     price = md_price market_data, timestamp = clock_now w, risk_level = MEDIUM,
                     position_size_pct = calculate_position_size sz config\<rparr>))
      else Inr None)"

definition late_afternoon_strategy ::
  "world \<Rightarrow> MarketData \<Rightarrow> AnalysisConfig \<Rightarrow> error + TradingSignal option" where
  "late_afternoon_strategy w market_data config =
     (if md_change_pct market_data < -2 then
        (case sizing_signal w BUY 82 of
           Inl e \<Rightarrow> Inl e
         | Inr sz \<Rightarrow>
             map_sum id Some
               (TradingSignal_post_init
                  \<lparr>symbol = md_symbol market_data, name = md_name market_data,
                   sector = md_sector market_data, action = BUY, confidence = 82,
                   price = md_price market_data, timestamp = clock_now w, risk_level = MEDIUM,
                   position_size_pct = calculate_position_size sz config\<rparr>))
      else Inr None)"

text \<open>\<open>TPlusOneStrategy.analyze_market_data\<close>: the time slot of the clock picks the rule.\<close>

definition TPlusOne_analyze_market_data ::
  "world \<Rightarrow> MarketData \<Rightarrow> AnalysisConfig \<Rightarrow> error + TradingSignal option" where
  "TPlusOne_analyze_market_data w market_data config =
     (let time_slot = get_time_slot (clock_now w) in
      if time_slot = ''non_trading'' then Inr None
      else if time_slot = ''early_morning'' then early_morning_strategy w market_data config
      else if time_slot \<in> set [''morning_session'', ''afternoon_session'']
      then intraday_trading_strategy w market_data config
      else if time_slot = ''late_afternoon'' then late_afternoon_strategy w market_data config
      else Inr None)"

definition Momentum_analyze_market_data ::
  "world \<Rightarrow> MarketData \<Rightarrow> AnalysisConfig \<Rightarrow> error + TradingSignal option" where
  "Momentum_analyze_market_data w market_data config =
     (if md_change_pct market_data > 5
         \<and> real_of_int (md_volume market_data) > get_additional market_data ''avg_volume'' 0 * 2
      then
        if get_additional market_data ''avg_volume'' 1 = 0 then Inl ZeroDivisionError
        else
          (case sizing_signal w BUY (min 95 (md_change_pct market_data)) of
             Inl e \<Rightarrow> Inl e
           | Inr sz \<Rightarrow>
               map_sum id Some
                 (TradingSignal_post_init
                    \<lparr>symbol = md_symbol market_data, name = md_name market_data,
                     sector = md_sector market_data, action = BUY,
                     confidence = min 95 (md_change_pct market_data),
                     price = md_price market_data, timestamp = clock_now w, risk_level = HIGH,
                     position_size_pct = calculate_position_size sz config * 0.8\<rparr>))
      else Inr None)"

definition Volume_analyze_market_data ::
  "world \<Rightarrow> MarketData \<Rightarrow> AnalysisConfig \<Rightarrow> error + TradingSignal option" where
  "Volume_analyze_market_data w market_data config =
     (if get_additional market_data ''avg_volume'' 1 = 0 then Inl ZeroDivisionError
      else
        (let volume_ratio =
               real_of_int (md_volume market_data) / get_additional market_data ''avg_volume'' 1
         in if volume_ratio > 3 then
              (let act = (if md_change_pct market_data > 0 then BUY else SELL) in
               case sizing_signal w act (min 90 (volume_ratio * 10)) of
                 Inl e \<Rightarrow> Inl e
               | Inr sz \<Rightarrow>
                   map_sum id Some
                     (TradingSignal_post_init
                        \<lparr>symbol = md_symbol market_data, name = md_name market_data,
                         sector = md_sector market_data, action = act,
                         confidence = min 90 (volume_ratio * 10),
                         price = md_price market_data, timestamp = clock_now w, risk_level = HIGH,
                         position_size_pct = calculate_position_size sz config * 0.7\<rparr>))
            else Inr None))"

definition Sentiment_analyze_market_data ::
  "world \<Rightarrow> MarketData \<Rightarrow> AnalysisConfig \<Rightarrow> error + TradingSignal option" where
  "Sentiment_analyze_market_data w market_data config =
     (let sentiment_score = uniform_0_100 w in
      if sentiment_score > 80 \<and> md_change_pct market_data > 1 then
        (case sizing_signal w BUY (sentiment_score * 0.9) of
           Inl e \<Rightarrow> Inl e
         | Inr sz \<Rightarrow>
             map_sum id Some
               (TradingSignal_post_init
                  \<lparr>symbol = md_symbol market_data, name = md_name market_data,
                   sector = md_sector market_data, action = BUY,
                   confidence = sentiment_score * 0.9,
                   price = md_price market_data, timestamp = clock_now w, risk_level = MEDIUM,
                   position_size_pct = calculate_position_size sz config\<rparr>))
      else Inr None)"

text \<open>Method dispatch on the class of the strategy.\<close>

fun analyze_market_data ::
  "strategy \<Rightarrow> world \<Rightarrow> MarketData \<Rightarrow> AnalysisConfig \<Rightarrow> error + TradingSignal option" where
  "analyze_market_data BaseStrategy w md config = Inr None"
| "analyze_market_data TPlusOneStrategy w md config = TPlusOne_analyze_market_data w md config"
| "analyze_market_data MomentumStrategy w md config = Momentum_analyze_market_data w md config"
| "analyze_market_data VolumeStrategy w md config = Volume_analyze_market_data w md config"
| "analyze_market_data SentimentStrategy w md config = Sentiment_analyze_market_data w md config"

fun should_enter_position :: "strategy \<Rightarrow> TradingSignal \<Rightarrow> Portfolio \<Rightarrow> bool" where
  "should_enter_position BaseStrategy signal portfolio = False"
| "should_enter_position TPlusOneStrategy signal portfolio =
     (if action signal \<noteq> BUY then False
      else if cash portfolio * position_size_pct signal < price signal * 100 then False
      else if map_of (positions portfolio) (symbol signal) \<noteq> None then False
      else True)"
| "should_enter_position MomentumStrategy signal portfolio =
     (action signal = BUY \<and> cash portfolio \<ge> price signal * 100
      \<and> map_of (positions portfolio) (symbol signal) = None)"
| "should_enter_position VolumeStrategy signal portfolio =
     (cash portfolio \<ge> price signal * 100
      \<and> map_of (positions portfolio) (symbol signal) = None)"
| "should_enter_position SentimentStrategy signal portfolio =
     (cash portfolio \<ge> price signal * 100
      \<and> map_of (positions portfolio) (symbol signal) = None)"

text \<open>
  The exit rules on the profit percentage \<open>(current_price / cost_price - 1) * 100\<close>: take
  profit at \<open>hi\<close>, stop loss at \<open>lo\<close>. The division raises on a zero average cost.
\<close>

definition exit_on_profit_pct ::
  "real \<Rightarrow> real \<Rightarrow> string \<Rightarrow> Portfolio \<Rightarrow> real \<Rightarrow> error + SignalAction option" where
  "exit_on_profit_pct hi lo sy portfolio current_price =
     (case map_of (positions portfolio) sy of
        None \<Rightarrow> Inr None
      | Some position \<Rightarrow>
          (let cost_price = avg_cost position in
           if cost_price = 0 then Inl ZeroDivisionError
           else
             (let profit_pct = (current_price / cost_price - 1) * 100 in
              if profit_pct \<ge> hi then Inr (Some SELL)
              else if profit_pct \<le> lo then Inr (Some SELL)
              else Inr None)))"

fun should_exit_position ::
  "strategy \<Rightarrow> world \<Rightarrow> string \<Rightarrow> Portfolio \<Rightarrow> real \<Rightarrow> error + SignalAction option" where
  "should_exit_position BaseStrategy w sy portfolio current_price = Inr None"
| "should_exit_position TPlusOneStrategy w sy portfolio current_price =
     exit_on_profit_pct 8 (-5) sy portfolio current_price"
| "should_exit_position MomentumStrategy w sy portfolio current_price =
     exit_on_profit_pct 12 (-8) sy portfolio current_price"
| "should_exit_position VolumeStrategy w sy portfolio current_price =
     exit_on_profit_pct 15 (-10) sy portfolio current_price"
| "should_exit_position SentimentStrategy w sy portfolio current_price =
     (case map_of (positions portfolio) sy of
        None \<Rightarrow> Inr None
      | Some position \<Rightarrow> if random_0_1 w < 0.1 then Inr (Some SELL) else Inr None)"

text \<open>
  The classification as the specification words it, for comparison with
  \<open>get_time_slot\<close>: pre-open is the half-open interval from 09:15 to 09:30, then the
  closed intervals of the morning, afternoon and closing sessions, in this order.
\<close>

definition spec_time_slot :: "datetime \<Rightarrow> string" where
  "spec_time_slot current_time =
     (let t = dt_time current_time in
      if time_le (mk_time 9 15) t \<and> time_lt t (mk_time 9 30) then ''early_morning''
      else if time_le (mk_time 9 30) t \<and> time_le t (mk_time 11 30) then ''morning_session''
      else if time_le (mk_time 13 0) t \<and> time_le t (mk_time 14 30) then ''afternoon_session''
      else if time_le (mk_time 14 30) t \<and> time_le t (mk_time 15 0) then ''late_afternoon''
      else ''non_trading'')"

text \<open>Concrete inputs of the examples below.\<close>

definition at_time :: "nat \<Rightarrow> nat \<Rightarrow> datetime" where
  "at_time h m = \<lparr>dt_ordinal = 738887, dt_time = mk_time h m\<rparr>"

definition world_at :: "nat \<Rightarrow> nat \<Rightarrow> world" where
  "world_at h m = \<lparr>clock_now = at_time h m, uniform_0_100 = 50, random_0_1 = 0.5\<rparr>"

definition quote :: "string \<Rightarrow> real \<Rightarrow> real \<Rightarrow> MarketData" where
  "quote sy pr chg =
     \<lparr>md_symbol = sy, md_name = sy, md_price = pr, md_change_pct = chg, md_volume = 1000,
      md_amount = 1000 * pr, md_sector = ''BK0917'', md_timestamp = at_time 9 0,
      additional_data = Map.empty\<rparr>"

definition AnalysisConfig_default :: AnalysisConfig where
  "AnalysisConfig_default =
     \<lparr>sectors = [''BK0917''], confidence_threshold = 80, max_position_size = 0.1,
      enable_parallel = True, max_workers = 8, analysis_timeout = 15, enable_caching = True,
      cache_ttl = 300\<rparr>"

section \<open>Market scan\<close>

text \<open>
  \<open>BullMarketAnalyzer\<close>: its configuration, its strategies, and the optional collaborators.
  The data provider's \<open>get_sector_stocks\<close> and the notifier's \<open>notify_signal\<close> are
  functions that may raise.
\<close>

record BullMarketAnalyzer =
  bma_config :: AnalysisConfig
  bma_strategies :: "strategy list"
  bma_data_provider :: "(string \<Rightarrow> error + MarketData list) option"
  bma_notifier :: "(TradingSignal \<Rightarrow> error + unit) option"

text \<open>
  The readings of clock and random generator of a whole scan: one \<open>world\<close> for the call
  of the \<open>k\<close>-th strategy on the \<open>j\<close>-th quote of the \<open>i\<close>-th sector.
\<close>

type_synonym readings = "nat \<Rightarrow> nat \<Rightarrow> nat \<Rightarrow> world"

text \<open>
  The loop of \<open>analyze_single_stock\<close>: the strategies are tried in order, the first
  signal wins, and an exception of a strategy leaves the loop.
\<close>

fun try_strategies ::
  "(nat \<Rightarrow> world) \<Rightarrow> nat \<Rightarrow> strategy list \<Rightarrow> MarketData \<Rightarrow> AnalysisConfig
    \<Rightarrow> error + TradingSignal option" where
  "try_strategies w k [] market_data config = Inr None"
| "try_strategies w k (strat # rest) market_data config =
     (case analyze_market_data strat (w k) market_data config of
        Inl e \<Rightarrow> Inl e
      | Inr (Some signal) \<Rightarrow> Inr (Some signal)
      | Inr None \<Rightarrow> try_strategies w (Suc k) rest market_data config)"

definition analyze_single_stock ::
  "BullMarketAnalyzer \<Rightarrow> (nat \<Rightarrow> world) \<Rightarrow> MarketData \<Rightarrow> error + TradingSignal option" where
  "analyze_single_stock a w market_data =
     try_strategies w 0 (bma_strategies a) market_data (bma_config a)"

text \<open>
  The inner loop of \<open>scan_market\<close> over the quotes of one sector, inside the
  \<open>try\<close>: an exception ends the sector, and the signals appended so far stay.
\<close>

fun scan_sector_data ::
  "BullMarketAnalyzer \<Rightarrow> (nat \<Rightarrow> nat \<Rightarrow> world) \<Rightarrow> nat \<Rightarrow> MarketData list
    \<Rightarrow> TradingSignal list \<Rightarrow> TradingSignal list" where
  "scan_sector_data a w j [] signals = signals"
| "scan_sector_data a w j (market_data # rest) signals =
     (case analyze_single_stock a (w j) market_data of
        Inl e \<Rightarrow> signals
      | Inr None \<Rightarrow> scan_sector_data a w (Suc j) rest signals
      | Inr (Some signal) \<Rightarrow> scan_sector_data a w (Suc j) rest (signals @ [signal]))"

fun scan_sectors ::
  "BullMarketAnalyzer \<Rightarrow> (string \<Rightarrow> error + MarketData list) \<Rightarrow> readings \<Rightarrow> nat \<Rightarrow> string list
    \<Rightarrow> TradingSignal list \<Rightarrow> TradingSignal list" where
  "scan_sectors a provider w i [] signals = signals"
| "scan_sectors a provider w i (sec # rest) signals =
     (case provider sec of
        Inl e \<Rightarrow> scan_sectors a provider w (Suc i) rest signals
      | Inr sector_data \<Rightarrow>
          scan_sectors a provider w (Suc i) rest (scan_sector_data a (w i) 0 sector_data signals))"

fun notify_signals :: "(TradingSignal \<Rightarrow> error + unit) \<Rightarrow> TradingSignal list \<Rightarrow> error + unit" where
  "notify_signals notify [] = Inr ()"
| "notify_signals notify (signal # rest) =
     (case notify signal of Inl e \<Rightarrow> Inl e | Inr u \<Rightarrow> notify_signals notify rest)"

text \<open>
  \<open>BullMarketAnalyzer.scan_market\<close>: without a data provider the result is empty;
  otherwise the sectors are scanned, the signals filtered by the confidence threshold and
  the survivors notified (outside any \<open>try\<close>) and returned.
\<close>

definition scan_market :: "BullMarketAnalyzer \<Rightarrow> readings \<Rightarrow> error + TradingSignal list" where
  "scan_market a w =
     (case bma_data_provider a of
        None \<Rightarrow> Inr []
      | Some provider \<Rightarrow>
          (let signals = scan_sectors a provider w 0 (sectors (bma_config a)) [];
               filtered_signals =
                 filter (\<lambda>s. confidence s \<ge> confidence_threshold (bma_config a)) signals
           in case bma_notifier a of
                None \<Rightarrow> Inr filtered_signals
              | Some notify \<Rightarrow>
                  (case notify_signals notify filtered_signals of
                     Inl e \<Rightarrow> Inl e
                   | Inr u \<Rightarrow> Inr filtered_signals)))"

section \<open>The scan use case\<close>

text \<open>
  \<open>SignalAction.value\<close>: the two-character Chinese names of the actions. Python strings
  are modelled by their UTF-8 bytes, which keeps concatenation and equality; each value
  is six bytes.
\<close>

fun SignalAction_value :: "SignalAction \<Rightarrow> string" where
  "SignalAction_value BUY = [CHR 0xE4, CHR 0xB9, CHR 0xB0, CHR 0xE5, CHR 0x85, CHR 0xA5]"
| "SignalAction_value SELL = [CHR 0xE5, CHR 0x8D, CHR 0x96, CHR 0xE5, CHR 0x87, CHR 0xBA]"
| "SignalAction_value HOLD = [CHR 0xE6, CHR 0x8C, CHR 0x81, CHR 0xE6, CHR 0x9C, CHR 0x89]"
| "SignalAction_value STOP_LOSS = [CHR 0xE6, CHR 0xAD, CHR 0xA2, CHR 0xE6, CHR 0x8D, CHR 0x9F]"
| "SignalAction_value TAKE_PROFIT = [CHR 0xE6, CHR 0xAD, CHR 0xA2, CHR 0xE7, CHR 0x9B, CHR 0x88]"

text \<open>The dictionary key \<open>f"{signal.symbol}_{signal.action.value}"\<close>.\<close>

definition signal_key :: "TradingSignal \<Rightarrow> string" where
  "signal_key signal = symbol signal @ ''_'' @ SignalAction_value (action signal)"

text \<open>
  \<open>sorted(signals, key=lambda s: s.confidence, reverse=True)\<close>: a stable sort in
  descending order, which Python computes by reversing, sorting stably and reversing.
\<close>

definition sorted_by_confidence_reverse :: "TradingSignal list \<Rightarrow> TradingSignal list" where
  "sorted_by_confidence_reverse signals = rev (sort_key confidence (rev signals))"

text \<open>The loop that fills \<open>unique_signals\<close>: the first signal of each key is kept.\<close>

fun unique_by_key ::
  "TradingSignal list \<Rightarrow> (string \<times> TradingSignal) list \<Rightarrow> (string \<times> TradingSignal) list" where
  "unique_by_key [] unique_signals = unique_signals"
| "unique_by_key (signal # rest) unique_signals =
     (if map_of unique_signals (signal_key signal) = None
      then unique_by_key rest (AList.update (signal_key signal) signal unique_signals)
      else unique_by_key rest unique_signals)"

definition process_signals :: "TradingSignal list \<Rightarrow> TradingSignal list" where
  "process_signals signals =
     (let sorted_signals = sorted_by_confidence_reverse signals
      in map snd (unique_by_key sorted_signals []))"

text \<open>\<open>ScanMarketUseCase.execute\<close>: any exception of the scan gives the empty list.\<close>

definition execute :: "BullMarketAnalyzer \<Rightarrow> readings \<Rightarrow> TradingSignal list" where
  "execute a w =
     (case scan_market a w of
        Inl e \<Rightarrow> []
      | Inr signals \<Rightarrow> process_signals signals)"

text \<open>Concrete inputs of the examples below.\<close>

definition signal_of :: "string \<Rightarrow> SignalAction \<Rightarrow> real \<Rightarrow> TradingSignal" where
  "signal_of sy a c =
     \<lparr>symbol = sy, name = sy, sector = ''BK0917'', action = a, confidence = c, price = 10,
      timestamp = at_time 9 20, risk_level = LOW, position_size_pct = 0.1\<rparr>"

definition pre_open_analyzer :: BullMarketAnalyzer where
  "pre_open_analyzer =
     \<lparr>bma_config = AnalysisConfig_default,
      bma_strategies = [TPlusOneStrategy],
      bma_data_provider =
        Some (\<lambda>sec. Inr [quote ''AAA'' 10 (-3), quote ''BBB'' 10 1, quote ''CCC'' 20 (-4)]),
      bma_notifier = None\<rparr>"

section \<open>Backtesting\<close>

record TradeRecord =
  tr_symbol :: string
  tr_name :: string
  tr_action :: SignalAction
  tr_quantity :: int
  tr_price :: real
  tr_amount :: real
  tr_commission :: real
  tr_timestamp :: datetime
  tr_confidence :: real
  cost_price :: "real option"
  profit_loss :: real
  profit_loss_pct :: real
  hold_days :: int

record RiskMetrics =
  max_drawdown :: real
  sharpe_ratio :: real
  volatility :: real
  win_rate :: real
  profit_loss_ratio :: real
  calmar_ratio :: real
  sortino_ratio :: real
  max_consecutive_losses :: int
  recovery_factor :: real

text \<open>\<open>RiskMetrics()\<close> with the dataclass defaults.\<close>

definition RiskMetrics_default :: RiskMetrics where
  "RiskMetrics_default =
     \<lparr>max_drawdown = 0, sharpe_ratio = 0, volatility = 0, win_rate = 0, profit_loss_ratio = 0,
      calmar_ratio = 0, sortino_ratio = 0, max_consecutive_losses = 0, recovery_factor = 0\<rparr>"

text \<open>The dictionary \<open>analyze_performance\<close> returns, one field per key.\<close>

record PerformanceAnalysis =
  pa_total_return :: real
  pa_total_return_pct :: real
  pa_win_rate :: real
  pa_total_trades :: int
  pa_profitable_trades :: int
  pa_losing_trades :: int
  pa_avg_hold_days :: real
  pa_max_profit :: real
  pa_max_loss :: real
  pa_avg_profit_per_trade :: real

text \<open>The dictionary \<open>_process_trading_day\<close> builds for a day.\<close>

record DailyResult =
  dr_date :: int
  dr_signals_count :: int
  dr_trades_executed :: "TradeRecord list"
  dr_capital_before :: real
  dr_capital_after :: real
  dr_positions_count :: int

text \<open>
  \<open>BacktestResult\<close>, a frozen dataclass: assigning to a field raises
  \<open>FrozenInstanceError\<close>, while the lists it holds can still be appended to. An empty
  \<open>performance_analysis\<close> dictionary is \<open>None\<close>.
\<close>

record BacktestResult =
  br_config :: AnalysisConfig
  start_date :: datetime
  end_date :: datetime
  trading_days :: int
  total_signals :: int
  executed_trades :: int
  trade_records :: "TradeRecord list"
  daily_results :: "DailyResult list"
  performance_analysis :: "PerformanceAnalysis option"
  risk_metrics :: RiskMetrics
  final_portfolio_value :: real

text \<open>The attributes a \<open>BacktestResult\<close> has: its fields and its properties.\<close>

definition BacktestResult_attributes :: "string list" where
  "BacktestResult_attributes =
     [''config'', ''start_date'', ''end_date'', ''trading_days'', ''total_signals'',
      ''executed_trades'', ''trade_records'', ''daily_results'', ''performance_analysis'',
      ''risk_metrics'', ''final_portfolio_value'', ''total_return_pct'',
      ''annualized_return'', ''is_profitable'', ''performance_score'']"

text \<open>Python's \<open>int(x)\<close> on a float: truncation towards zero.\<close>

definition py_int :: "real \<Rightarrow> int" where
  "py_int x = (if 0 \<le> x then \<lfloor>x\<rfloor> else \<lceil>x\<rceil>)"

text \<open>
  \<open>BacktestEngine\<close>: its configuration, its strategies and the repository's
  \<open>save_backtest_result\<close>, which may raise. (The data provider is never called.)
\<close>

record BacktestEngine =
  be_config :: AnalysisConfig
  be_strategies :: "strategy list"
  be_save_backtest_result :: "BacktestResult \<Rightarrow> error + unit"

text \<open>
  What a backtest run reads from outside, by the ordinal of the simulated day: the clock
  when that day's trades are booked, the readings of the strategy calls of
  \<open>_generate_signals\<close>, the value of \<open>random.uniform(-0.05, 0.05)\<close> drawn for a symbol in
  \<open>_check_exit_conditions\<close>, and the readings of the \<open>k\<close>-th strategy asked whether to
  exit that symbol.
\<close>

record backtest_readings =
  rd_now :: "int \<Rightarrow> datetime"
  rd_analysis :: "int \<Rightarrow> readings"
  rd_price_move :: "int \<Rightarrow> string \<Rightarrow> real"
  rd_exit :: "int \<Rightarrow> string \<Rightarrow> nat \<Rightarrow> world"

definition calculate_trading_days :: "datetime \<Rightarrow> datetime \<Rightarrow> int" where
  "calculate_trading_days start_d end_d = max 1 (days_between end_d start_d)"

definition is_trading_day :: "datetime \<Rightarrow> bool" where
  "is_trading_day d = (weekday d < 5)"

text \<open>\<open>_get_historical_sector_data\<close>: both paths return the empty list.\<close>

definition get_historical_sector_data :: "string \<Rightarrow> datetime \<Rightarrow> MarketData list" where
  "get_historical_sector_data sec trade_date = []"

text \<open>
  \<open>_generate_signals\<close>: per sector, inside a \<open>try\<close>, no data skips the sector; otherwise
  each quote is offered to the strategies in order, and an exception ends the sector.
\<close>

fun generate_sector_signals ::
  "strategy list \<Rightarrow> AnalysisConfig \<Rightarrow> (nat \<Rightarrow> nat \<Rightarrow> world) \<Rightarrow> nat \<Rightarrow> MarketData list
    \<Rightarrow> TradingSignal list \<Rightarrow> TradingSignal list" where
  "generate_sector_signals strats config w j [] signals = signals"
| "generate_sector_signals strats config w j (market_data # rest) signals =
     (case try_strategies (w j) 0 strats market_data config of
        Inl e \<Rightarrow> signals
      | Inr None \<Rightarrow> generate_sector_signals strats config w (Suc j) rest signals
      | Inr (Some signal) \<Rightarrow>
          generate_sector_signals strats config w (Suc j) rest (signals @ [signal]))"

fun generate_signals_loop ::
  "BacktestEngine \<Rightarrow> readings \<Rightarrow> datetime \<Rightarrow> nat \<Rightarrow> string list \<Rightarrow> TradingSignal list
    \<Rightarrow> TradingSignal list" where
  "generate_signals_loop eng w trade_date i [] signals = signals"
| "generate_signals_loop eng w trade_date i (sec # rest) signals =
     (let sector_data = get_historical_sector_data sec trade_date in
      if sector_data = [] then generate_signals_loop eng w trade_date (Suc i) rest signals
      else generate_signals_loop eng w trade_date (Suc i) rest
             (generate_sector_signals (be_strategies eng) (be_config eng) (w i) 0 sector_data
                signals))"

definition generate_signals :: "BacktestEngine \<Rightarrow> readings \<Rightarrow> datetime \<Rightarrow> TradingSignal list" where
  "generate_signals eng w trade_date =
     generate_signals_loop eng w trade_date 0 (sectors (be_config eng)) []"

text \<open>
  \<open>_execute_trade\<close>, the whole body inside a \<open>try\<close> that turns any exception into
  \<open>None\<close>: the first strategy willing to enter is looked for; the quantity is
  \<open>int(cash * position_size_pct / price)\<close> (the division raises on a zero price); a
  quantity below 100 is refused; otherwise the position is added and the trade recorded.
\<close>

definition execute_trade ::
  "strategy list \<Rightarrow> datetime \<Rightarrow> TradingSignal \<Rightarrow> Portfolio \<Rightarrow> datetime
    \<Rightarrow> TradeRecord option \<times> Portfolio" where
  "execute_trade strats now signal portfolio trade_date =
     (case find (\<lambda>s. should_enter_position s signal portfolio) strats of
        None \<Rightarrow> (None, portfolio)
      | Some strat \<Rightarrow>
          if price signal = 0 then (None, portfolio)
          else
            (let qty = py_int ((cash portfolio * position_size_pct signal) / price signal) in
             if qty < 100 then (None, portfolio)
             else
               (let commission = real_of_int qty * price signal * 0.0003 in
                case add_position now (symbol signal) qty (price signal) commission portfolio of
                  (Inl e, portfolio') \<Rightarrow> (None, portfolio')
                | (Inr u, portfolio') \<Rightarrow>
                    (Some \<lparr>tr_symbol = symbol signal, tr_name = name signal,
                           tr_action = action signal, tr_quantity = qty,
                           tr_price = price signal,
                           tr_amount = real_of_int qty * price signal,
                           tr_commission = commission, tr_timestamp = trade_date,
                           tr_confidence = confidence signal, cost_price = None,
                           profit_loss = 0, profit_loss_pct = 0, hold_days = 1\<rparr>,
                     portfolio'))))"

text \<open>The loop of \<open>_process_trading_day\<close> over the day's signals, counting the trades.\<close>

fun execute_signals ::
  "strategy list \<Rightarrow> datetime \<Rightarrow> datetime \<Rightarrow> TradingSignal list \<Rightarrow> int \<Rightarrow> Portfolio
    \<Rightarrow> int \<times> Portfolio" where
  "execute_signals strats now trade_date [] executed_count portfolio =
     (executed_count, portfolio)"
| "execute_signals strats now trade_date (signal # rest) executed_count portfolio =
     (case execute_trade strats now signal portfolio trade_date of
        (Some trade_record, portfolio') \<Rightarrow>
          execute_signals strats now trade_date rest (executed_count + 1) portfolio'
      | (None, portfolio') \<Rightarrow>
          execute_signals strats now trade_date rest executed_count portfolio')"

text \<open>
  \<open>_execute_exit_trade\<close>, inside a \<open>try\<close> that swallows any exception. The whole
  position is sold. After the trade record is appended to \<open>result.trade_records\<close>, the
  statement \<open>result.executed_trades += 1\<close> assigns to a field of the frozen result and
  raises, which the \<open>except\<close> swallows: the counter is never incremented.
\<close>

definition execute_exit_trade ::
  "datetime \<Rightarrow> string \<Rightarrow> Portfolio \<Rightarrow> real \<Rightarrow> datetime \<Rightarrow> BacktestResult
    \<Rightarrow> Portfolio \<times> BacktestResult" where
  "execute_exit_trade now sy portfolio current_price trade_date result =
     (case map_of (positions portfolio) sy of
        None \<Rightarrow> (portfolio, result)
      | Some position \<Rightarrow>
          (let qty = quantity position;
               cost = avg_cost position;
               commission = current_price * real_of_int qty * 0.0003
                            + current_price * real_of_int qty * 0.001;
               revenue = current_price * real_of_int qty - commission;
               pl = revenue - (cost * real_of_int qty + total_cost position
                               - cost * real_of_int qty);
               held = days_between trade_date (entry_date position) + 1
           in if cost = 0 then (portfolio, result)
              else
                (let pl_pct = (current_price / cost - 1) * 100 in
                 case remove_position now sy qty current_price commission portfolio of
                   (Inl e, portfolio') \<Rightarrow> (portfolio', result)
                 | (Inr r, portfolio') \<Rightarrow>
                     (portfolio',
                      result\<lparr>trade_records := trade_records result @
                        [\<lparr>tr_symbol = sy, tr_name = sy, tr_action = SELL, tr_quantity = qty,
                          tr_price = current_price,
                          tr_amount = current_price * real_of_int qty,
                          tr_commission = commission, tr_timestamp = trade_date,
                          tr_confidence = 80, cost_price = Some cost, profit_loss = pl,
                          profit_loss_pct = pl_pct, hold_days = held\<rparr>]\<rparr>))))"

text \<open>
  \<open>_check_exit_conditions\<close>: for every symbol held at the start, a simulated price and
  the first strategy that asks to exit. \<open>should_exit_position\<close> is called outside any
  \<open>try\<close>, so its exception leaves the backtest.
\<close>

fun first_exit ::
  "(nat \<Rightarrow> world) \<Rightarrow> nat \<Rightarrow> strategy list \<Rightarrow> string \<Rightarrow> Portfolio \<Rightarrow> real \<Rightarrow> error + bool" where
  "first_exit w k [] sy portfolio current_price = Inr False"
| "first_exit w k (strat # rest) sy portfolio current_price =
     (case should_exit_position strat (w k) sy portfolio current_price of
        Inl e \<Rightarrow> Inl e
      | Inr (Some exit_action) \<Rightarrow> Inr True
      | Inr None \<Rightarrow> first_exit w (Suc k) rest sy portfolio current_price)"

fun check_exit_loop ::
  "BacktestEngine \<Rightarrow> backtest_readings \<Rightarrow> datetime \<Rightarrow> string list \<Rightarrow> Portfolio
    \<Rightarrow> BacktestResult \<Rightarrow> error + Portfolio \<times> BacktestResult" where
  "check_exit_loop eng rd trade_date [] portfolio result = Inr (portfolio, result)"
| "check_exit_loop eng rd trade_date (sy # rest) portfolio result =
     (case map_of (positions portfolio) sy of
        None \<Rightarrow> Inl (KeyError sy)
      | Some position \<Rightarrow>
          (let current_price =
                 avg_cost position * (1 + rd_price_move rd (dt_ordinal trade_date) sy)
           in case first_exit (rd_exit rd (dt_ordinal trade_date) sy) 0 (be_strategies eng) sy
                     portfolio current_price of
                Inl e \<Rightarrow> Inl e
              | Inr False \<Rightarrow> check_exit_loop eng rd trade_date rest portfolio result
              | Inr True \<Rightarrow>
                  (case execute_exit_trade (rd_now rd (dt_ordinal trade_date)) sy portfolio
                          current_price trade_date result of
                     (portfolio', result') \<Rightarrow>
                       check_exit_loop eng rd trade_date rest portfolio' result')))"

definition check_exit_conditions ::
  "BacktestEngine \<Rightarrow> backtest_readings \<Rightarrow> Portfolio \<Rightarrow> datetime \<Rightarrow> BacktestResult
    \<Rightarrow> error + Portfolio \<times> BacktestResult" where
  "check_exit_conditions eng rd portfolio trade_date result =
     check_exit_loop eng rd trade_date (map fst (positions portfolio)) portfolio result"

text \<open>
  \<open>_process_trading_day\<close>: the day's dictionary is returned to the caller, which only
  logs it; it is not appended to \<open>result.daily_results\<close>, and neither
  \<open>result.total_signals\<close> nor the dictionary's own counters are updated.
\<close>

definition process_trading_day ::
  "BacktestEngine \<Rightarrow> backtest_readings \<Rightarrow> datetime \<Rightarrow> Portfolio \<Rightarrow> BacktestResult
    \<Rightarrow> error + DailyResult \<times> Portfolio \<times> BacktestResult" where
  "process_trading_day eng rd trade_date portfolio result =
     (let daily_result =
            \<lparr>dr_date = dt_ordinal trade_date, dr_signals_count = 0, dr_trades_executed = [],
             dr_capital_before = cash portfolio, dr_capital_after = cash portfolio,
             dr_positions_count = int (length (positions portfolio))\<rparr>;
          signals = generate_signals eng (rd_analysis rd (dt_ordinal trade_date)) trade_date
      in case execute_signals (be_strategies eng) (rd_now rd (dt_ordinal trade_date))
                trade_date signals 0 portfolio of
           (executed_count, portfolio1) \<Rightarrow>
             (case check_exit_conditions eng rd portfolio1 trade_date result of
                Inl e \<Rightarrow> Inl e
              | Inr (portfolio2, result2) \<Rightarrow>
                  Inr (daily_result\<lparr>dr_capital_after := cash portfolio2,
                                    dr_positions_count := int (length (positions portfolio2))\<rparr>,
                       portfolio2, result2)))"

text \<open>
  The loop of \<open>_execute_backtest_flow\<close> over the calendar days. Its bound
  \<open>result.end_date\<close> is a field of the frozen result and is passed as \<open>end_d\<close>. Adding a
  day to the last day a \<open>datetime\<close> can hold (ordinal 3652059) raises
  \<open>OverflowError\<close>.
\<close>

function execute_backtest_loop ::
  "BacktestEngine \<Rightarrow> backtest_readings \<Rightarrow> datetime \<Rightarrow> datetime \<Rightarrow> Portfolio \<Rightarrow> BacktestResult
    \<Rightarrow> error + BacktestResult" where
  "execute_backtest_loop eng rd end_d current_date portfolio result =
     (if datetime_le current_date end_d then
        (case (if is_trading_day current_date
               then map_sum id snd (process_trading_day eng rd current_date portfolio result)
               else Inr (portfolio, result)) of
           Inl e \<Rightarrow> Inl e
         | Inr (portfolio', result') \<Rightarrow>
             if dt_ordinal current_date + 1 > 3652059 then Inl OverflowError
             else execute_backtest_loop eng rd end_d
                    (current_date\<lparr>dt_ordinal := dt_ordinal current_date + 1\<rparr>)
                    portfolio' result')
      else Inr result)"
  by pat_completeness auto
termination
  by (relation "measure (\<lambda>(eng, rd, end_d, current_date, portfolio, result).
        nat (dt_ordinal end_d - dt_ordinal current_date + 1))")
     (auto simp: datetime_le_def)

declare execute_backtest_loop.simps [simp del]

definition execute_backtest_flow ::
  "BacktestEngine \<Rightarrow> backtest_readings \<Rightarrow> BacktestResult \<Rightarrow> error + BacktestResult" where
  "execute_backtest_flow eng rd result =
     execute_backtest_loop eng rd (end_date result) (start_date result) Portfolio_default result"

text \<open>
  \<open>BacktestEngine._analyze_performance\<close>: the capital curve is built from
  \<open>result.daily_results\<close>; then the arguments of the call to
  \<open>analyze_performance\<close> are evaluated, among them \<open>result.final_portfolio.cash\<close>. A
  \<open>BacktestResult\<close> has no attribute \<open>final_portfolio\<close>, so the read raises
  \<open>AttributeError\<close>. (Were the attribute there, the assignment to
  \<open>result.performance_analysis\<close> that follows would raise \<open>FrozenInstanceError\<close>.)
\<close>

definition engine_analyze_performance :: "BacktestResult \<Rightarrow> error + BacktestResult" where
  "engine_analyze_performance result =
     (let capital_values = (100000 :: real) # map dr_capital_after (daily_results result) in
      if ''final_portfolio'' \<notin> set BacktestResult_attributes
      then Inl (AttributeError ''final_portfolio'')
      else Inl (FrozenInstanceError ''performance_analysis''))"

text \<open>The \<open>BacktestResult\<close> that \<open>run_backtest\<close> starts from.\<close>

definition initial_result :: "BacktestEngine \<Rightarrow> datetime \<Rightarrow> datetime \<Rightarrow> BacktestResult" where
  "initial_result eng start_d end_d =
     \<lparr>br_config = be_config eng, start_date = start_d, end_date = end_d,
      trading_days = calculate_trading_days start_d end_d, total_signals = 0,
      executed_trades = 0, trade_records = [], daily_results = [],
      performance_analysis = None, risk_metrics = RiskMetrics_default,
      final_portfolio_value = 100000\<rparr>"

text \<open>\<open>BacktestEngine.run_backtest\<close>: initialise, run the days, analyse, save, return.\<close>

definition run_backtest ::
  "BacktestEngine \<Rightarrow> backtest_readings \<Rightarrow> datetime \<Rightarrow> datetime \<Rightarrow> error + BacktestResult" where
  "run_backtest eng rd start_d end_d =
     (let result = initial_result eng start_d end_d
      in case execute_backtest_flow eng rd result of
           Inl e \<Rightarrow> Inl e
         | Inr result1 \<Rightarrow>
             (case engine_analyze_performance result1 of
                Inl e \<Rightarrow> Inl e
              | Inr result2 \<Rightarrow>
                  (case be_save_backtest_result eng result2 of
                     Inl e \<Rightarrow> Inl e
                   | Inr u \<Rightarrow> Inr result2)))"

text \<open>
  The order quantity as the specification words it: the floor of
  \<open>cash * position_size_pct / price\<close>, rounded down to a multiple of 100.
\<close>

definition spec_lot_quantity :: "real \<Rightarrow> real \<Rightarrow> real \<Rightarrow> int" where
  "spec_lot_quantity c pct pr = (\<lfloor>c * pct / pr\<rfloor> div 100) * 100"

text \<open>Concrete inputs of the examples below.\<close>

definition all_strategies :: "strategy list" where
  "all_strategies = [TPlusOneStrategy, MomentumStrategy, VolumeStrategy, SentimentStrategy]"

definition default_engine :: BacktestEngine where
  "default_engine =
     \<lparr>be_config = AnalysisConfig_default, be_strategies = all_strategies,
      be_save_backtest_result = (\<lambda>r. Inr ())\<rparr>"

definition calm_readings :: backtest_readings where
  "calm_readings =
     \<lparr>rd_now = (\<lambda>d. \<lparr>dt_ordinal = d, dt_time = mk_time 15 0\<rparr>),
      rd_analysis = (\<lambda>d i j k. world_at 14 45),
      rd_price_move = (\<lambda>d sy. 0),
      rd_exit = (\<lambda>d sy k. world_at 14 45)\<rparr>"

section \<open>Performance analysis\<close>

text \<open>\<open>max(xs)\<close> and \<open>min(xs)\<close> of a non-empty list, by one pass from its first element.\<close>

definition list_max :: "real \<Rightarrow> real list \<Rightarrow> real" where
  "list_max x xs = fold max xs x"

definition list_min :: "real \<Rightarrow> real list \<Rightarrow> real" where
  "list_min x xs = fold min xs x"

definition closed_trades_of :: "TradeRecord list \<Rightarrow> TradeRecord list" where
  "closed_trades_of trs = filter (\<lambda>t. tr_action t \<in> set [SELL]) trs"

text \<open>
  \<open>PerformanceAnalyzer.analyze_performance\<close>. Its one statement that can raise is the
  division by \<open>initial_capital\<close>.
\<close>

definition analyze_performance ::
  "TradeRecord list \<Rightarrow> real \<Rightarrow> real \<Rightarrow> error + PerformanceAnalysis" where
  "analyze_performance trs initial_capital final_capital =
     (if trs = [] then
        Inr \<lparr>pa_total_return = 0, pa_total_return_pct = 0, pa_win_rate = 0, pa_total_trades = 0,
             pa_profitable_trades = 0, pa_losing_trades = 0, pa_avg_hold_days = 0,
             pa_max_profit = 0, pa_max_loss = 0, pa_avg_profit_per_trade = 0\<rparr>
      else
        (let closed_trades = closed_trades_of trs;
             profitable_trades = filter (\<lambda>t. profit_loss t > 0) closed_trades;
             losing_trades = filter (\<lambda>t. profit_loss t < 0) closed_trades;
             win_rate' = (if closed_trades \<noteq> []
                          then real (length profitable_trades) / real (length closed_trades) * 100
                          else 0);
             total_return = sum_list (map profit_loss closed_trades)
         in if initial_capital = 0 then Inl ZeroDivisionError
            else
              (let total_return_pct = (final_capital / initial_capital - 1) * 100;
                   avg_hold_days =
                     (if closed_trades \<noteq> []
                      then real_of_int (sum_list (map hold_days closed_trades))
                           / real (length closed_trades)
                      else 0);
                   profits = map profit_loss closed_trades;
                   max_profit = (case profits of [] \<Rightarrow> 0 | x # xs \<Rightarrow> list_max x xs);
                   max_loss = (case profits of [] \<Rightarrow> 0 | x # xs \<Rightarrow> list_min x xs)
               in Inr \<lparr>pa_total_return = total_return, pa_total_return_pct = total_return_pct,
                       pa_win_rate = win_rate',
                       pa_total_trades = int (length closed_trades),
                       pa_profitable_trades = int (length profitable_trades),
                       pa_losing_trades = int (length losing_trades),
                       pa_avg_hold_days = avg_hold_days, pa_max_profit = max_profit,
                       pa_max_loss = max_loss,
                       pa_avg_profit_per_trade =
                         (if closed_trades \<noteq> [] then total_return / real (length closed_trades)
                          else 0)\<rparr>)))"

text \<open>
  The loops of \<open>calculate_risk_metrics\<close>: the running peak and maximal drawdown over the
  capital curve (the division by the peak raises on zero), the day-over-day returns (the
  division by the previous value raises on zero), and the longest run of losing trades.
\<close>

fun drawdown_loop :: "real list \<Rightarrow> real \<Rightarrow> real \<Rightarrow> error + real" where
  "drawdown_loop [] peak max_dd = Inr max_dd"
| "drawdown_loop (v # rest) peak max_dd =
     (let peak' = (if v > peak then v else peak) in
      if peak' = 0 then Inl ZeroDivisionError
      else drawdown_loop rest peak' (max max_dd ((peak' - v) / peak' * 100)))"

fun daily_returns :: "real list \<Rightarrow> real list \<Rightarrow> error + real list" where
  "daily_returns (a # b # rest) returns =
     (if a = 0 then Inl ZeroDivisionError
      else daily_returns (b # rest) (returns @ [(b - a) / a]))"
| "daily_returns [a] returns = Inr returns"
| "daily_returns [] returns = Inr returns"

fun consecutive_losses :: "TradeRecord list \<Rightarrow> int \<Rightarrow> int \<Rightarrow> int" where
  "consecutive_losses [] current_losses max_losses = max_losses"
| "consecutive_losses (trade # rest) current_losses max_losses =
     (if profit_loss trade < 0
      then consecutive_losses rest (current_losses + 1) (max max_losses (current_losses + 1))
      else consecutive_losses rest 0 max_losses)"

text \<open>
  \<open>PerformanceAnalyzer.calculate_risk_metrics\<close>; \<open>x ** 0.5\<close> is the square root.
  The variance is used only where the source computes it, with more than one return.
\<close>

definition calculate_risk_metrics :: "TradeRecord list \<Rightarrow> real list \<Rightarrow> error + RiskMetrics" where
  "calculate_risk_metrics trs capital_values =
     (case capital_values of
        [] \<Rightarrow> Inr RiskMetrics_default
      | [v] \<Rightarrow> Inr RiskMetrics_default
      | v0 # v1 # vs \<Rightarrow>
          (case drawdown_loop capital_values v0 0 of
             Inl e \<Rightarrow> Inl e
           | Inr max_dd \<Rightarrow>
               (case daily_returns capital_values [] of
                  Inl e \<Rightarrow> Inl e
                | Inr returns \<Rightarrow>
                    (let avg_return = sum_list returns / real (length returns);
                         variance =
                           sum_list (map (\<lambda>r. (r - avg_return)\<^sup>2) returns)
                           / (real (length returns) - 1);
                         vol = (if returns \<noteq> [] \<and> length returns > 1
                                then sqrt variance * 100 else 0);
                         risk_free_rate = 0.03 / 252;
                         sharpe = (if returns \<noteq> [] \<and> length returns > 1 \<and> variance > 0
                                   then (avg_return - risk_free_rate) / sqrt variance * sqrt 252
                                   else 0);
                         closed_trades = closed_trades_of trs;
                         win_rate' =
                           (if closed_trades \<noteq> []
                            then real (length (filter (\<lambda>t. profit_loss t > 0) closed_trades))
                                 / real (length closed_trades) * 100
                            else 0);
                         profits = map profit_loss (filter (\<lambda>t. profit_loss t > 0) closed_trades);
                         losses = map (\<lambda>t. \<bar>profit_loss t\<bar>)
                                    (filter (\<lambda>t. profit_loss t < 0) closed_trades);
                         pl_ratio =
                           (if losses \<noteq> [] then
                              (let avg_profit = (if profits \<noteq> []
                                                 then sum_list profits / real (length profits)
                                                 else 0);
                                   avg_loss = sum_list losses / real (length losses)
                               in if avg_loss > 0 then avg_profit / avg_loss else 0)
                            else 0);
                         max_losses = consecutive_losses closed_trades 0 0;
                         recovery =
                           (if max_dd > 0
                            then \<bar>sum_list (map profit_loss closed_trades)\<bar> / max_dd else 0)
                     in if max_dd > 0 \<and> returns = [] then Inl ZeroDivisionError
                        else
                          Inr \<lparr>max_drawdown = max_dd, sharpe_ratio = sharpe, volatility = vol,
                               win_rate = win_rate', profit_loss_ratio = pl_ratio,
                               calmar_ratio =
                                 (if max_dd > 0
                                  then (sum_list returns / real (length returns) * 252)
                                       / (max_dd / 100)
                                  else 0),
                               sortino_ratio = sharpe, max_consecutive_losses = max_losses,
                               recovery_factor = recovery\<rparr>))))"




text \<open>Concrete inputs of the examples below.\<close>

definition sale :: "string \<Rightarrow> real \<Rightarrow> TradeRecord" where
  "sale sy pl =
     \<lparr>tr_symbol = sy, tr_name = sy, tr_action = SELL, tr_quantity = 100, tr_price = 10,
      tr_amount = 1000, tr_commission = 1.3, tr_timestamp = at_time 15 0, tr_confidence = 80,
      cost_price = Some 10, profit_loss = pl, profit_loss_pct = pl / 10, hold_days = 2\<rparr>"

section \<open>Portfolio bookkeeping\<close>









text \<open>
  C3. \<open>remove_position\<close> raises when the symbol has no position and when the requested
  quantity exceeds the held quantity, and in both cases the portfolio (every position
  with its quantity, average cost and total cost, and the cash balance) is exactly as
  before the call. Both failures are Python \<open>ValueError\<close>s, told apart by their message:
  the one for a missing position is the specification's NoSuchPositionError, the one for
  an excessive quantity its OverSellError.
\<close>

theorem C3_remove_position_errors_leave_state:
  "(map_of (positions p) s = None \<longrightarrow>
      remove_position now s q pr c p = (Inl (ValueError (NoPositionFound s)), p))
   \<and> (\<forall>pos. map_of (positions p) s = Some pos \<and> q > quantity pos \<longrightarrow>
      remove_position now s q pr c p
        = (Inl (ValueError (SellExceedsPosition q (quantity pos))), p))"
  by (simp add: remove_position_def)

theorem C3_remove_position_errors_leave_state_witness:
  "remove_position (midnight 2) ''BBB'' 10 12 1
       (snd (add_position (midnight 1) ''AAA'' 100 10 3 Portfolio_default))
     = (Inl (ValueError (NoPositionFound ''BBB'')),
        snd (add_position (midnight 1) ''AAA'' 100 10 3 Portfolio_default))
   \<and> remove_position (midnight 2) ''AAA'' 101 12 1
       (snd (add_position (midnight 1) ''AAA'' 100 10 3 Portfolio_default))
     = (Inl (ValueError (SellExceedsPosition 101 100)),
        snd (add_position (midnight 1) ''AAA'' 100 10 3 Portfolio_default))"
proof -
  let ?p = "snd (add_position (midnight 1) ''AAA'' 100 10 3 Portfolio_default)"
  have none: "map_of (positions ?p) ''BBB'' = None"
    by (simp add: add_position_def Portfolio_default_def)
  have some: "map_of (positions ?p) ''AAA''
      = Some \<lparr>quantity = 100, avg_cost = 10, total_cost = 1003,
              entry_date = midnight 1, last_update = midnight 1\<rparr>"
    by (simp add: add_position_def Portfolio_default_def)
  from C3_remove_position_errors_leave_state [of ?p "''BBB''" "midnight 2" 10 12 1] none
  have a: "remove_position (midnight 2) ''BBB'' 10 12 1 ?p
      = (Inl (ValueError (NoPositionFound ''BBB'')), ?p)"
    by blast
  from C3_remove_position_errors_leave_state [of ?p "''AAA''" "midnight 2" 101 12 1] some
  have b: "remove_position (midnight 2) ''AAA'' 101 12 1 ?p
      = (Inl (ValueError (SellExceedsPosition 101 100)), ?p)"
    by simp
  from a b show ?thesis by simp
qed



section \<open>Time slots and the pre-open rule\<close>




text \<open>
  C8 (as stated it fails). At 09:30:00 exactly the claim's half-open pre-open interval
  is over and the morning session has begun; the code's first slot is closed at both
  ends and is tried first, so 09:30:00 is still pre-open.
\<close>

theorem C8_time_slot_boundary_counterexample:
  "spec_time_slot (at_time 9 30) = ''morning_session''
   \<and> get_time_slot (at_time 9 30) = ''early_morning''
   \<and> get_time_slot (at_time 9 30) \<noteq> spec_time_slot (at_time 9 30)"
  by (simp add: spec_time_slot_def get_time_slot_def time_slots_def time_le_def time_lt_def
      mk_time_def at_time_def)

text \<open>
  C8 (amended). Every time of day is classified into exactly one slot, by the first
  match among the closed intervals 09:15 to 09:30 (pre-open), 09:30 to 11:30 (morning),
  13:00 to 14:30 (afternoon) and 14:30 to 15:00 (closing): so pre-open is [09:15,09:30],
  morning (09:30,11:30], afternoon [13:00,14:30], closing (14:30,15:00], and any other
  time is non-trading, in which case the T+1 strategy yields no signal.
\<close>

theorem C8_time_slot_classification:
  "get_time_slot d =
     (if time_le (mk_time 9 15) (dt_time d) \<and> time_le (dt_time d) (mk_time 9 30)
        then ''early_morning''
      else if time_lt (mk_time 9 30) (dt_time d) \<and> time_le (dt_time d) (mk_time 11 30)
        then ''morning_session''
      else if time_le (mk_time 13 0) (dt_time d) \<and> time_le (dt_time d) (mk_time 14 30)
        then ''afternoon_session''
      else if time_lt (mk_time 14 30) (dt_time d) \<and> time_le (dt_time d) (mk_time 15 0)
        then ''late_afternoon''
      else ''non_trading'')
   \<and> (get_time_slot (clock_now w) = ''non_trading'' \<longrightarrow>
        TPlusOne_analyze_market_data w md cfg = Inr None)"
proof -
  obtain h m s u where t: "dt_time d = \<lparr>hour = h, minute = m, second = s, microsecond = u\<rparr>"
    by (cases "dt_time d") auto
  have "get_time_slot d =
     (if time_le (mk_time 9 15) (dt_time d) \<and> time_le (dt_time d) (mk_time 9 30)
        then ''early_morning''
      else if time_lt (mk_time 9 30) (dt_time d) \<and> time_le (dt_time d) (mk_time 11 30)
        then ''morning_session''
      else if time_le (mk_time 13 0) (dt_time d) \<and> time_le (dt_time d) (mk_time 14 30)
        then ''afternoon_session''
      else if time_lt (mk_time 14 30) (dt_time d) \<and> time_le (dt_time d) (mk_time 15 0)
        then ''late_afternoon''
      else ''non_trading'')"
    unfolding get_time_slot_def time_slots_def t
    by (auto simp add: time_le_def time_lt_def mk_time_def)
  moreover have "get_time_slot (clock_now w) = ''non_trading'' \<longrightarrow>
        TPlusOne_analyze_market_data w md cfg = Inr None"
    by (simp add: TPlusOne_analyze_market_data_def)
  ultimately show ?thesis by simp
qed

theorem C8_time_slot_classification_witness:
  "get_time_slot (at_time 9 30) = ''early_morning''
   \<and> get_time_slot (at_time 14 30) = ''afternoon_session''
   \<and> get_time_slot (clock_now (world_at 12 0)) = ''non_trading''
   \<and> TPlusOne_analyze_market_data (world_at 12 0) (quote ''AAA'' 10 (-3)) AnalysisConfig_default
       = Inr None"
proof -
  have n: "get_time_slot (clock_now (world_at 12 0)) = ''non_trading''"
    using C8_time_slot_classification [of "clock_now (world_at 12 0)"]
    by (simp add: time_le_def time_lt_def mk_time_def world_at_def at_time_def)
  have "TPlusOne_analyze_market_data (world_at 12 0) (quote ''AAA'' 10 (-3))
      AnalysisConfig_default = Inr None"
    using C8_time_slot_classification [of "at_time 9 30" "world_at 12 0"
        "quote ''AAA'' 10 (-3)" AnalysisConfig_default] n
    by blast
  moreover have "get_time_slot (at_time 9 30) = ''early_morning''"
    using C8_time_slot_classification [of "at_time 9 30"]
    by (simp add: time_le_def time_lt_def mk_time_def at_time_def)
  moreover have "get_time_slot (at_time 14 30) = ''afternoon_session''"
    using C8_time_slot_classification [of "at_time 14 30"]
    by (simp add: time_le_def time_lt_def mk_time_def at_time_def)
  ultimately show ?thesis using n by simp
qed

section \<open>Scanning, sorting and de-duplication\<close>

lemma update_fresh: "map_of u k = None \<Longrightarrow> AList.update k v u = u @ [(k, v)]"
  by (induction u) (auto split: if_splits)


lemma unique_by_key_fresh:
  "map_of u (signal_key s) = None \<Longrightarrow>
     unique_by_key (s # ys) u = unique_by_key ys (u @ [(signal_key s, s)])"
  by (simp add: update_fresh)

lemma unique_by_key_seen:
  "map_of u (signal_key s) \<noteq> None \<Longrightarrow> unique_by_key (s # ys) u = unique_by_key ys u"
  by auto

lemma unique_by_key_prefix: "\<exists>zs. unique_by_key ys u = u @ zs"
proof (induction ys arbitrary: u)
  case Nil
  then show ?case by simp
next
  case (Cons s ys)
  show ?case
  proof (cases "map_of u (signal_key s) = None")
    case True
    from Cons [of "u @ [(signal_key s, s)]"] obtain zs
      where "unique_by_key ys (u @ [(signal_key s, s)]) = (u @ [(signal_key s, s)]) @ zs" ..
    then show ?thesis by (simp only: unique_by_key_fresh [OF True]) simp
  next
    case False
    with Cons [of u] show ?thesis by (simp only: unique_by_key_seen [OF False])
  qed
qed

lemma unique_by_key_sorted:
  "sorted_wrt P (map snd u @ ys) \<Longrightarrow> sorted_wrt P (map snd (unique_by_key ys u))"
proof (induction ys arbitrary: u)
  case Nil
  then show ?case by simp
next
  case (Cons s ys)
  show ?case
  proof (cases "map_of u (signal_key s) = None")
    case True
    have "sorted_wrt P (map snd (u @ [(signal_key s, s)]) @ ys)"
      using Cons.prems by simp
    from Cons.IH [OF this] show ?thesis by (simp only: unique_by_key_fresh [OF True])
  next
    case False
    have "sorted_wrt P (map snd u @ ys)"
      using Cons.prems by (auto simp: sorted_wrt_append)
    from Cons.IH [OF this] show ?thesis by (simp only: unique_by_key_seen [OF False])
  qed
qed

lemma unique_by_key_distinct:
  "distinct (map fst u) \<Longrightarrow> distinct (map fst (unique_by_key ys u))"
  by (induction ys arbitrary: u) (simp_all add: distinct_update)

lemma unique_by_key_keys:
  "\<forall>(k, v) \<in> set u. k = signal_key v \<Longrightarrow> \<forall>(k, v) \<in> set (unique_by_key ys u). k = signal_key v"
proof (induction ys arbitrary: u)
  case Nil
  then show ?case by simp
next
  case (Cons s ys)
  show ?case
  proof (cases "map_of u (signal_key s) = None")
    case True
    have "\<forall>(k, v) \<in> set (u @ [(signal_key s, s)]). k = signal_key v"
      using Cons.prems by auto
    from Cons.IH [OF this] show ?thesis by (simp only: unique_by_key_fresh [OF True])
  next
    case False
    from Cons.IH [OF Cons.prems] show ?thesis by (simp only: unique_by_key_seen [OF False])
  qed
qed

lemma unique_by_key_subset:
  "snd ` set (unique_by_key ys u) \<subseteq> snd ` set u \<union> set ys"
proof (induction ys arbitrary: u)
  case Nil
  then show ?case by simp
next
  case (Cons s ys)
  show ?case
  proof (cases "map_of u (signal_key s) = None")
    case True
    have "unique_by_key (s # ys) u = unique_by_key ys (u @ [(signal_key s, s)])"
      using True by (rule unique_by_key_fresh)
    with Cons.IH [of "u @ [(signal_key s, s)]"] show ?thesis
      by auto
  next
    case False
    then have "unique_by_key (s # ys) u = unique_by_key ys u"
      by (rule unique_by_key_seen)
    with Cons.IH [of u] show ?thesis by auto
  qed
qed

lemma unique_by_key_keeps:
  assumes "\<forall>(k, v) \<in> set u. k = signal_key v"
    and "sorted_wrt (\<lambda>a b. confidence a \<ge> confidence b) (map snd u @ ys)"
    and "s \<in> set ys"
  shows "\<exists>r \<in> snd ` set (unique_by_key ys u). signal_key r = signal_key s \<and> confidence s \<le> confidence r"
  using assms
proof (induction ys arbitrary: u)
  case Nil
  then show ?case by simp
next
  case (Cons y ys)
  let ?P = "\<lambda>a b. confidence a \<ge> confidence b"
  show ?case
  proof (cases "map_of u (signal_key y) = None")
    case True
    let ?u = "u @ [(signal_key y, y)]"
    have k: "\<forall>(k, v) \<in> set ?u. k = signal_key v"
      using Cons.prems(1) by auto
    have srt: "sorted_wrt ?P (map snd ?u @ ys)"
      using Cons.prems(2) by simp
    have res: "unique_by_key (y # ys) u = unique_by_key ys ?u"
      using True by (rule unique_by_key_fresh)
    show ?thesis
    proof (cases "s = y")
      case True
      obtain zs where "unique_by_key ys ?u = ?u @ zs"
        using unique_by_key_prefix by blast
      then have "y \<in> snd ` set (unique_by_key ys ?u)"
        by force
      with True res show ?thesis by auto
    next
      case False
      then have "s \<in> set ys" using Cons.prems(3) by simp
      from Cons.IH [OF k srt this] res show ?thesis by simp
    qed
  next
    case False
    then obtain v where v: "map_of u (signal_key y) = Some v" by auto
    then have vin: "(signal_key y, v) \<in> set u"
      by (rule map_of_SomeD)
    have srt: "sorted_wrt ?P (map snd u @ ys)"
      using Cons.prems(2) by (auto simp: sorted_wrt_append)
    have res: "unique_by_key (y # ys) u = unique_by_key ys u"
      using False by (rule unique_by_key_seen)
    show ?thesis
    proof (cases "s = y")
      case True
      have kv: "signal_key v = signal_key y"
        using Cons.prems(1) vin by auto
      have "v \<in> set (map snd u)" using vin by force
      then have cv: "confidence y \<le> confidence v"
        using Cons.prems(2) by (auto simp: sorted_wrt_append)
      obtain zs where "unique_by_key ys u = u @ zs"
        using unique_by_key_prefix by blast
      then have "v \<in> snd ` set (unique_by_key ys u)"
        using vin by force
      with True res kv cv show ?thesis by auto
    next
      case False
      then have "s \<in> set ys" using Cons.prems(3) by simp
      from Cons.IH [OF Cons.prems(1) srt this] res show ?thesis by simp
    qed
  qed
qed

lemma SignalAction_value_length: "length (SignalAction_value a) = 6"
  by (cases a) simp_all

lemma SignalAction_value_inj: "SignalAction_value a = SignalAction_value b \<Longrightarrow> a = b"
  by (cases a; cases b) simp_all

lemma signal_key_eq_iff:
  "signal_key r = signal_key s \<longleftrightarrow> symbol r = symbol s \<and> action r = action s"
proof
  assume "signal_key r = signal_key s"
  then have "(symbol r @ ''_'') @ SignalAction_value (action r)
      = (symbol s @ ''_'') @ SignalAction_value (action s)"
    by (simp add: signal_key_def)
  then have "symbol r @ ''_'' = symbol s @ ''_'' \<and>
      SignalAction_value (action r) = SignalAction_value (action s)"
    by (subst (asm) append_eq_append_conv) (simp_all add: SignalAction_value_length)
  then show "symbol r = symbol s \<and> action r = action s"
    by (auto dest: SignalAction_value_inj)
next
  assume "symbol r = symbol s \<and> action r = action s"
  then show "signal_key r = signal_key s" by (simp add: signal_key_def)
qed

lemma sorted_by_confidence_reverse_set: "set (sorted_by_confidence_reverse xs) = set xs"
  by (simp add: sorted_by_confidence_reverse_def)

lemma sorted_by_confidence_reverse_sorted:
  "sorted_wrt (\<lambda>a b. confidence a \<ge> confidence b) (sorted_by_confidence_reverse xs)"
proof -
  have "sorted (map confidence (sort_key confidence (rev xs)))"
    by simp
  then have "sorted_wrt (\<lambda>a b. confidence a \<le> confidence b) (sort_key confidence (rev xs))"
    by (simp add: sorted_map)
  then show ?thesis
    by (simp add: sorted_by_confidence_reverse_def sorted_wrt_rev)
qed

lemma process_signals_sorted:
  "sorted_wrt (\<lambda>a b. confidence a \<ge> confidence b) (process_signals xs)"
  using unique_by_key_sorted [of "\<lambda>a b. confidence a \<ge> confidence b" "[]"
      "sorted_by_confidence_reverse xs"] sorted_by_confidence_reverse_sorted [of xs]
  by (simp add: process_signals_def)

lemma process_signals_distinct:
  "distinct (map (\<lambda>s. (symbol s, action s)) (process_signals xs))"
proof -
  let ?r = "unique_by_key (sorted_by_confidence_reverse xs) []"
  have d: "distinct (map fst ?r)"
    by (rule unique_by_key_distinct) simp
  have "\<forall>(k, v) \<in> set ?r. k = signal_key v"
    by (rule unique_by_key_keys) simp
  then have "map fst ?r = map (signal_key \<circ> snd) ?r"
    by auto
  with d have "distinct (map signal_key (map snd ?r))"
    by simp
  then have "distinct (map (\<lambda>s. (symbol s, action s)) (map snd ?r))"
    unfolding distinct_map by (auto simp: inj_on_def signal_key_eq_iff)
  then show ?thesis by (simp add: process_signals_def)
qed

lemma process_signals_subset: "set (process_signals xs) \<subseteq> set xs"
  using unique_by_key_subset [of "sorted_by_confidence_reverse xs" "[]"]
  by (simp add: process_signals_def sorted_by_confidence_reverse_set)

lemma process_signals_keeps:
  assumes "s \<in> set xs"
  shows "\<exists>r \<in> set (process_signals xs).
           symbol r = symbol s \<and> action r = action s \<and> confidence s \<le> confidence r"
proof -
  have "s \<in> set (sorted_by_confidence_reverse xs)"
    using assms by (simp add: sorted_by_confidence_reverse_set)
  from unique_by_key_keeps [of "[]" "sorted_by_confidence_reverse xs" s, OF _ _ this]
  show ?thesis
    using sorted_by_confidence_reverse_sorted [of xs]
    by (simp add: process_signals_def signal_key_eq_iff)
qed

lemma scan_market_filtered:
  "scan_market a w = Inr sigs \<Longrightarrow> s \<in> set sigs
     \<Longrightarrow> confidence_threshold (bma_config a) \<le> confidence s"
  by (auto simp: scan_market_def Let_def split: option.splits sum.splits)

text \<open>
  C1. Whatever the configuration, the strategies, the readings of clock and random
  generator and the lists the data provider returns, a list returned by \<open>scan_market\<close>
  holds no signal whose confidence is strictly below \<open>config.confidence_threshold\<close>.
  The scan returns whenever no notifier is configured (otherwise an exception of the
  notifier leaves \<open>scan_market\<close>).
\<close>

theorem C1_scan_market_honours_threshold:
  "(\<forall>sigs. scan_market a w = Inr sigs \<longrightarrow>
      (\<forall>s \<in> set sigs. \<not> confidence s < confidence_threshold (bma_config a)))
   \<and> (bma_notifier a = None \<longrightarrow> (\<exists>sigs. scan_market a w = Inr sigs))"
proof -
  have "\<forall>sigs. scan_market a w = Inr sigs \<longrightarrow>
      (\<forall>s \<in> set sigs. \<not> confidence s < confidence_threshold (bma_config a))"
    using scan_market_filtered [of a w] by (auto simp: not_less)
  moreover have "bma_notifier a = None \<longrightarrow> (\<exists>sigs. scan_market a w = Inr sigs)"
    by (simp add: scan_market_def Let_def split: option.splits)
  ultimately show ?thesis by simp
qed

theorem C1_scan_market_honours_threshold_witness:
  "scan_market pre_open_analyzer (\<lambda>i j k. world_at 9 20)
     = Inr [\<lparr>symbol = ''AAA'', name = ''AAA'', sector = ''BK0917'', action = SELL,
              confidence = 85, price = 10, timestamp = at_time 9 20, risk_level = LOW,
              position_size_pct = 0\<rparr>,
            \<lparr>symbol = ''CCC'', name = ''CCC'', sector = ''BK0917'', action = SELL,
              confidence = 85, price = 20, timestamp = at_time 9 20, risk_level = LOW,
              position_size_pct = 0\<rparr>]
   \<and> confidence_threshold (bma_config pre_open_analyzer) = 80
   \<and> list_all (\<lambda>s. \<not> confidence s < confidence_threshold (bma_config pre_open_analyzer))
        [\<lparr>symbol = ''AAA'', name = ''AAA'', sector = ''BK0917'', action = SELL,
              confidence = 85, price = 10, timestamp = at_time 9 20, risk_level = LOW,
              position_size_pct = 0\<rparr>,
            \<lparr>symbol = ''CCC'', name = ''CCC'', sector = ''BK0917'', action = SELL,
              confidence = 85, price = 20, timestamp = at_time 9 20, risk_level = LOW,
              position_size_pct = 0\<rparr>]"
proof -
  let ?out = "[\<lparr>symbol = ''AAA'', name = ''AAA'', sector = ''BK0917'', action = SELL,
              confidence = 85, price = 10, timestamp = at_time 9 20, risk_level = LOW,
              position_size_pct = 0\<rparr>,
            \<lparr>symbol = ''CCC'', name = ''CCC'', sector = ''BK0917'', action = SELL,
              confidence = 85, price = 20, timestamp = at_time 9 20, risk_level = LOW,
              position_size_pct = 0\<rparr>]"
  have slot: "get_time_slot (at_time 9 20) = ''early_morning''"
    by (simp add: get_time_slot_def time_slots_def time_le_def mk_time_def at_time_def)
  have run: "scan_market pre_open_analyzer (\<lambda>i j k. world_at 9 20) = Inr ?out"
    by (simp add: scan_market_def pre_open_analyzer_def AnalysisConfig_default_def
        analyze_single_stock_def TPlusOne_analyze_market_data_def slot world_at_def
        quote_def early_morning_strategy_def TradingSignal_post_init_def)
  have thr: "confidence_threshold (bma_config pre_open_analyzer) = 80"
    by (simp add: pre_open_analyzer_def AnalysisConfig_default_def)
  from C1_scan_market_honours_threshold [of pre_open_analyzer "\<lambda>i j k. world_at 9 20"] run
  have "\<forall>s \<in> set ?out. \<not> confidence s < confidence_threshold (bma_config pre_open_analyzer)"
    by blast
  then have "list_all (\<lambda>s. \<not> confidence s < confidence_threshold (bma_config pre_open_analyzer)) ?out"
    by (simp only: list_all_iff)
  with run thr show ?thesis by simp
qed

text \<open>
  C10. The list \<open>_process_signals\<close> returns, and so the list
  \<open>ScanMarketUseCase.execute\<close> returns, is sorted by confidence in descending order
  and holds at most one signal per (symbol, action) pair; its signals are signals of the
  input, and for every input signal it holds a signal of the same pair with at least that
  confidence: the highest-confidence signal of each pair is kept.
\<close>

theorem C10_process_signals_sorted_unique:
  "sorted_wrt (\<lambda>r s. confidence s \<le> confidence r) (process_signals xs)
   \<and> distinct (map (\<lambda>s. (symbol s, action s)) (process_signals xs))
   \<and> set (process_signals xs) \<subseteq> set xs
   \<and> (\<forall>s \<in> set xs. \<exists>r \<in> set (process_signals xs).
         symbol r = symbol s \<and> action r = action s \<and> confidence s \<le> confidence r)
   \<and> sorted_wrt (\<lambda>r s. confidence s \<le> confidence r) (execute a w)
   \<and> distinct (map (\<lambda>s. (symbol s, action s)) (execute a w))
   \<and> (\<forall>sigs. scan_market a w = Inr sigs \<longrightarrow> execute a w = process_signals sigs)"
proof -
  have ex: "execute a w = [] \<or> (\<exists>sigs. execute a w = process_signals sigs)"
    by (auto simp: execute_def split: sum.splits)
  have 1: "sorted_wrt (\<lambda>r s. confidence s \<le> confidence r) (process_signals ys)" for ys
    by (rule process_signals_sorted)
  have 2: "distinct (map (\<lambda>s. (symbol s, action s)) (process_signals ys))" for ys
    by (rule process_signals_distinct)
  have 3: "sorted_wrt (\<lambda>r s. confidence s \<le> confidence r) (execute a w)"
    using ex 1 by auto
  have 4: "distinct (map (\<lambda>s. (symbol s, action s)) (execute a w))"
    using ex 2 by auto
  have 5: "\<forall>sigs. scan_market a w = Inr sigs \<longrightarrow> execute a w = process_signals sigs"
    by (simp add: execute_def)
  show ?thesis
    using 1 2 3 4 5 process_signals_subset [of xs] process_signals_keeps [of _ xs]
    by blast
qed

theorem C10_process_signals_sorted_unique_witness:
  "process_signals
     [signal_of ''AAA'' SELL 70, signal_of ''BBB'' BUY 80, signal_of ''AAA'' SELL 90,
      signal_of ''AAA'' BUY 60]
     = [signal_of ''AAA'' SELL 90, signal_of ''BBB'' BUY 80, signal_of ''AAA'' BUY 60]
   \<and> distinct (map (\<lambda>s. (symbol s, action s))
        [signal_of ''AAA'' SELL 90, signal_of ''BBB'' BUY 80, signal_of ''AAA'' BUY 60])
   \<and> execute pre_open_analyzer (\<lambda>i j k. world_at 12 0) = []"
proof -
  let ?xs = "[signal_of ''AAA'' SELL 70, signal_of ''BBB'' BUY 80, signal_of ''AAA'' SELL 90,
      signal_of ''AAA'' BUY 60]"
  have run: "process_signals ?xs
     = [signal_of ''AAA'' SELL 90, signal_of ''BBB'' BUY 80, signal_of ''AAA'' BUY 60]"
    by (simp add: process_signals_def sorted_by_confidence_reverse_def signal_key_def
        signal_of_def)
  have slot: "get_time_slot (at_time 12 0) = ''non_trading''"
    by (simp add: get_time_slot_def time_slots_def time_le_def mk_time_def at_time_def)
  have scan: "scan_market pre_open_analyzer (\<lambda>i j k. world_at 12 0) = Inr []"
    by (simp add: scan_market_def pre_open_analyzer_def AnalysisConfig_default_def
        analyze_single_stock_def TPlusOne_analyze_market_data_def slot world_at_def)
  have empty: "process_signals [] = []"
    by (simp add: process_signals_def sorted_by_confidence_reverse_def)
  from C10_process_signals_sorted_unique [of ?xs pre_open_analyzer "\<lambda>i j k. world_at 12 0"]
  have "distinct (map (\<lambda>s. (symbol s, action s)) (process_signals ?xs))"
    and "execute pre_open_analyzer (\<lambda>i j k. world_at 12 0) = process_signals []"
    using scan by blast+
  with run empty show ?thesis by simp
qed

section \<open>Trade execution\<close>

lemma py_int_ge_100: "100 \<le> py_int x \<Longrightarrow> py_int x = \<lfloor>x\<rfloor>"
  by (cases "0 \<le> x") (auto simp: py_int_def ceiling_le_iff)

lemma py_int_floor_less: "\<lfloor>x\<rfloor> < 100 \<Longrightarrow> py_int x < 100"
proof (cases "0 \<le> x")
  case True
  assume "\<lfloor>x\<rfloor> < 100"
  with True show ?thesis by (simp add: py_int_def)
next
  case False
  then have "\<lceil>x\<rceil> \<le> 0" by (simp add: ceiling_le_iff)
  with False show ?thesis by (simp add: py_int_def)
qed

text \<open>
  C5 (amended). Whenever \<open>_execute_trade\<close> executes a signal, the executed quantity is
  the floor of \<open>cash * position_size_pct / price\<close> itself, which is then at least 100
  (it is not rounded down to a multiple of 100); and whenever that floor is below 100 no
  trade is executed: no record is returned and the portfolio is unchanged.
\<close>

theorem C5_execute_trade_quantity:
  "(\<forall>trade p'. execute_trade strats now signal portfolio trade_date = (Some trade, p') \<longrightarrow>
      tr_quantity trade = \<lfloor>cash portfolio * position_size_pct signal / price signal\<rfloor>
      \<and> 100 \<le> tr_quantity trade)
   \<and> (\<lfloor>cash portfolio * position_size_pct signal / price signal\<rfloor> < 100 \<longrightarrow>
        execute_trade strats now signal portfolio trade_date = (None, portfolio))"
proof -
  let ?x = "cash portfolio * position_size_pct signal / price signal"
  have a: "tr_quantity trade = \<lfloor>?x\<rfloor> \<and> 100 \<le> tr_quantity trade"
    if "execute_trade strats now signal portfolio trade_date = (Some trade, p')" for trade p'
  proof -
    from that have "tr_quantity trade = py_int ?x \<and> 100 \<le> py_int ?x"
      by (auto simp: execute_trade_def Let_def split: option.splits if_splits prod.splits sum.splits)
    then show ?thesis using py_int_ge_100 [of ?x] by simp
  qed
  have b: "execute_trade strats now signal portfolio trade_date = (None, portfolio)"
    if "\<lfloor>?x\<rfloor> < 100"
    using py_int_floor_less [OF that]
    by (simp add: execute_trade_def Let_def split: option.splits)
  from a b show ?thesis by blast
qed

text \<open>
  C5 (as stated it fails). With cash 100000, position size 0.1 and price 66 the floor
  is 151; the claim's rounding to the lot gives 100, but the trade is executed with
  151 shares.
\<close>

theorem C5_no_lot_rounding_counterexample:
  "map_option tr_quantity
     (fst (execute_trade all_strategies (at_time 15 0) ((signal_of ''AAA'' BUY 82)\<lparr>price := 66\<rparr>)
        Portfolio_default (at_time 14 45))) = Some 151
   \<and> spec_lot_quantity (cash Portfolio_default)
        (position_size_pct ((signal_of ''AAA'' BUY 82)\<lparr>price := 66\<rparr>))
        (price ((signal_of ''AAA'' BUY 82)\<lparr>price := 66\<rparr>)) = 100"
proof -
  have fl: "\<lfloor>(100000 :: real) / 660\<rfloor> = 151"
    by (simp add: floor_eq_iff)
  have q: "py_int (100000 * (1 / 10) / 66) = 151"
    using fl by (simp add: py_int_def)
  show ?thesis
    using q fl
    by (simp add: execute_trade_def all_strategies_def signal_of_def Portfolio_default_def
        add_position_def spec_lot_quantity_def)
qed

theorem C5_execute_trade_quantity_witness:
  "map_option tr_quantity
     (fst (execute_trade all_strategies (at_time 15 0) (signal_of ''AAA'' BUY 82)
        Portfolio_default (at_time 14 45))) = Some 1000
   \<and> execute_trade all_strategies (at_time 15 0) ((signal_of ''AAA'' BUY 82)\<lparr>price := 200\<rparr>)
        Portfolio_default (at_time 14 45) = (None, Portfolio_default)"
proof -
  let ?s = "signal_of ''AAA'' BUY 82"
  let ?t = "(signal_of ''AAA'' BUY 82)\<lparr>price := 200\<rparr>"
  have q: "py_int (100000 * (1 / 10) / 10) = 1000"
    by (simp add: py_int_def)
  have run: "\<exists>trade p'. execute_trade all_strategies (at_time 15 0) ?s Portfolio_default
      (at_time 14 45) = (Some trade, p')"
    using q
    by (simp add: execute_trade_def all_strategies_def signal_of_def Portfolio_default_def
        add_position_def)
  then obtain trade p' where r: "execute_trade all_strategies (at_time 15 0) ?s
      Portfolio_default (at_time 14 45) = (Some trade, p')" by blast
  have fl: "\<lfloor>cash Portfolio_default * position_size_pct ?s / price ?s\<rfloor> = 1000"
    by (simp add: signal_of_def Portfolio_default_def)
  have small: "\<lfloor>cash Portfolio_default * position_size_pct ?t / price ?t\<rfloor> < 100"
    by (simp add: signal_of_def Portfolio_default_def)
  from C5_execute_trade_quantity [of all_strategies "at_time 15 0" ?s Portfolio_default
      "at_time 14 45"] r fl
  have "tr_quantity trade = 1000" by simp
  moreover from C5_execute_trade_quantity [of all_strategies "at_time 15 0" ?t
      Portfolio_default "at_time 14 45"] small
  have "execute_trade all_strategies (at_time 15 0) ?t Portfolio_default (at_time 14 45)
      = (None, Portfolio_default)" by blast
  ultimately show ?thesis using r by simp
qed

section \<open>The backtest run\<close>

lemma generate_signals_loop_empty:
  "generate_signals_loop eng w trade_date i secs signals = signals"
  by (induction secs arbitrary: i) (simp_all add: get_historical_sector_data_def)

lemma generate_signals_empty: "generate_signals eng w trade_date = []"
  by (simp add: generate_signals_def generate_signals_loop_empty)

lemma process_trading_day_no_positions:
  "positions portfolio = [] \<Longrightarrow>
     map_sum id snd (process_trading_day eng rd trade_date portfolio result)
       = Inr (portfolio, result)"
  by (simp add: process_trading_day_def generate_signals_empty check_exit_conditions_def)

lemma execute_backtest_loop_no_positions:
  "positions portfolio = [] \<Longrightarrow> dt_ordinal end_d < 3652059 \<Longrightarrow>
     execute_backtest_loop eng rd end_d current_date portfolio result = Inr result"
proof (induction eng rd end_d current_date portfolio result rule: execute_backtest_loop.induct)
  case (1 eng rd end_d current_date portfolio result)
  show ?case
  proof (cases "datetime_le current_date end_d")
    case False
    then show ?thesis by (subst execute_backtest_loop.simps) simp
  next
    case True
    then have le: "dt_ordinal current_date \<le> dt_ordinal end_d"
      by (auto simp: datetime_le_def)
    have step: "(if is_trading_day current_date
               then map_sum id snd (process_trading_day eng rd current_date portfolio result)
               else Inr (portfolio, result)) = Inr (portfolio, result)"
      using "1.prems"(1) by (simp add: process_trading_day_no_positions)
    have nover: "\<not> dt_ordinal current_date + 1 > 3652059"
      using le "1.prems"(2) by simp
    have "execute_backtest_loop eng rd end_d
            (current_date\<lparr>dt_ordinal := dt_ordinal current_date + 1\<rparr>) portfolio result
          = Inr result"
      using "1.IH" [OF True step refl nover "1.prems"] .
    then show ?thesis
      using True step nover by (subst execute_backtest_loop.simps) simp
  qed
qed

text \<open>
  \<open>run_backtest\<close> returns no result for any engine, any readings and any date range:
  it always ends in an exception.
\<close>

lemma run_backtest_never_returns: "\<exists>e. run_backtest eng rd start_d end_d = Inl e"
  by (simp add: run_backtest_def engine_analyze_performance_def Let_def split: sum.splits)

lemma run_backtest_attribute_error:
  "dt_ordinal end_d < 3652059 \<Longrightarrow>
     run_backtest eng rd start_d end_d = Inl (AttributeError ''final_portfolio'')"
  by (simp add: run_backtest_def execute_backtest_flow_def execute_backtest_loop_no_positions
      Portfolio_default_def engine_analyze_performance_def BacktestResult_attributes_def
      initial_result_def)

text \<open>
  C6 (the code fails the claim). A backtest over the five weekdays from Monday
  2024-01-01 to Friday 2024-01-05, with the four strategies of the repository and no
  historical data on any day, does not return a result: after the days are processed,
  \<open>_analyze_performance\<close> reads \<open>result.final_portfolio\<close>, which a \<open>BacktestResult\<close>
  does not have, and the \<open>AttributeError\<close> leaves \<open>run_backtest\<close>.
\<close>

theorem C6_run_backtest_raises:
  "run_backtest default_engine calm_readings (midnight 738886) (midnight 738890)
     = Inl (AttributeError ''final_portfolio'')
   \<and> map weekday [midnight 738886, midnight 738890] = [0, 4]"
  by (simp add: run_backtest_attribute_error midnight_def weekday_def)

section \<open>The performance analyzer\<close>

lemma analyze_performance_example:
  "analyze_performance [sale ''AAA'' 50, sale ''BBB'' (-20), sale ''CCC'' 30] 100000 100060
     = Inr \<lparr>pa_total_return = 60, pa_total_return_pct = 0.06, pa_win_rate = 200 / 3,
            pa_total_trades = 3, pa_profitable_trades = 2, pa_losing_trades = 1,
            pa_avg_hold_days = 2, pa_max_profit = 50, pa_max_loss = -20,
            pa_avg_profit_per_trade = 20\<rparr>"
  by (simp add: analyze_performance_def closed_trades_of_def sale_def list_max_def list_min_def)

lemma calculate_risk_metrics_example:
  "map_sum id max_drawdown
     (calculate_risk_metrics [sale ''AAA'' 50, sale ''BBB'' (-20)] [100000, 80000, 100000])
     = Inr 20
   \<and> map_sum id max_consecutive_losses
     (calculate_risk_metrics [sale ''AAA'' 50, sale ''BBB'' (-20)] [100000, 80000, 100000])
     = Inr 1
   \<and> calculate_risk_metrics [sale ''AAA'' 50] [100000, 0, 100000] = Inl ZeroDivisionError"
  by (simp add: calculate_risk_metrics_def closed_trades_of_def sale_def Let_def)


section \<open>Further properties of the code\<close>

lemma sizing_signal_raises: "\<exists>e. sizing_signal w a c = Inl e"
  by (simp add: sizing_signal_def TradingSignal_post_init_def)

text \<open>
  The only signal a strategy of the repository can return is the pre-open SELL of
  the T+1 strategy. Every other rule builds, for the position size, a signal with price
  0, which \<open>TradingSignal.__post_init__\<close> rejects: the rule raises instead of returning.
\<close>

theorem only_pre_open_sell_signals:
  assumes "analyze_market_data strat w md cfg = Inr (Some s)"
  shows "strat = TPlusOneStrategy \<and> get_time_slot (clock_now w) = ''early_morning''
         \<and> action s = SELL \<and> confidence s = 85 \<and> md_change_pct md < -2"
proof (cases strat)
  case BaseStrategy
  with assms show ?thesis by simp
next
  case TPlusOneStrategy
  obtain e where e: "\<And>a c. sizing_signal w a c = Inl (e a c)"
    using sizing_signal_raises [of w] by metis
  have "intraday_trading_strategy w md cfg \<noteq> Inr (Some s)"
    by (simp add: intraday_trading_strategy_def e)
  moreover have "late_afternoon_strategy w md cfg \<noteq> Inr (Some s)"
    by (simp add: late_afternoon_strategy_def e)
  ultimately have slot: "get_time_slot (clock_now w) = ''early_morning''"
    and em: "early_morning_strategy w md cfg = Inr (Some s)"
    using assms TPlusOneStrategy
    by (auto simp: TPlusOne_analyze_market_data_def Let_def split: if_splits)
  from em have "action s = SELL \<and> confidence s = 85 \<and> md_change_pct md < -2"
    by (auto simp: early_morning_strategy_def TradingSignal_post_init_def split: if_splits)
  with slot TPlusOneStrategy show ?thesis by simp
next
  case MomentumStrategy
  obtain e where e: "\<And>a c. sizing_signal w a c = Inl (e a c)"
    using sizing_signal_raises [of w] by metis
  from assms MomentumStrategy show ?thesis
    by (simp add: Momentum_analyze_market_data_def e split: if_splits)
next
  case VolumeStrategy
  obtain e where e: "\<And>a c. sizing_signal w a c = Inl (e a c)"
    using sizing_signal_raises [of w] by metis
  from assms VolumeStrategy show ?thesis
    by (simp add: Volume_analyze_market_data_def Let_def e split: if_splits)
next
  case SentimentStrategy
  obtain e where e: "\<And>a c. sizing_signal w a c = Inl (e a c)"
    using sizing_signal_raises [of w] by metis
  from assms SentimentStrategy show ?thesis
    by (simp add: Sentiment_analyze_market_data_def Let_def e split: if_splits)
qed

theorem only_pre_open_sell_signals_witness:
  "map_sum id (map_option (\<lambda>s. (action s, confidence s)))
     (analyze_market_data TPlusOneStrategy (world_at 9 20) (quote ''AAA'' 10 (-3))
        AnalysisConfig_default) = Inr (Some (SELL, 85))"
proof -
  have run: "\<exists>s. analyze_market_data TPlusOneStrategy (world_at 9 20) (quote ''AAA'' 10 (-3))
      AnalysisConfig_default = Inr (Some s)"
    by (simp add: TPlusOne_analyze_market_data_def get_time_slot_def time_slots_def time_le_def
        mk_time_def world_at_def at_time_def early_morning_strategy_def
        TradingSignal_post_init_def quote_def)
  then obtain s where s: "analyze_market_data TPlusOneStrategy (world_at 9 20)
      (quote ''AAA'' 10 (-3)) AnalysisConfig_default = Inr (Some s)" ..
  from only_pre_open_sell_signals [OF s] have "action s = SELL \<and> confidence s = 85"
    by simp
  with s show ?thesis by simp
qed

text \<open>
  In the closing slot a quote that is down 2.5 percent does not yield a BUY signal:
  the closing rule raises \<open>ValueError\<close> when it builds the price-0 signal for the
  position size.
\<close>

theorem late_afternoon_dip_raises:
  "late_afternoon_strategy (world_at 14 45) (quote ''AAA'' 10 (-2.5)) AnalysisConfig_default
     = Inl (ValueError PriceNotPositive)
   \<and> TPlusOne_analyze_market_data (world_at 14 45) (quote ''AAA'' 10 (-2.5)) AnalysisConfig_default
     = Inl (ValueError PriceNotPositive)"
  by (simp add: late_afternoon_strategy_def sizing_signal_def TradingSignal_post_init_def
      quote_def TPlusOne_analyze_market_data_def get_time_slot_def time_slots_def time_le_def
      mk_time_def world_at_def at_time_def)

text \<open>
  Closing the position of scenario A (100 shares of AAA bought at 10 with
  commission 3) at price 12 with fees 4.8 returns the profit
  \<open>100 * 12 - 100 * 10 - 4.8 = 195.2\<close>, computed from the average cost 10, removes the
  position and leaves the cash balance untouched.
\<close>

theorem scenario_B_on_the_code:
  "remove_position (midnight 2) ''AAA'' 100 12 4.8
       (snd (add_position (midnight 1) ''AAA'' 100 10 3 Portfolio_default))
     = (Inr 195.2, Portfolio_default)"
  by (simp add: remove_position_def add_position_def Portfolio_default_def AList.delete_eq)

text \<open>
  The day loop of a backtest generates no signal and executes no trade: for every
  engine and all readings, \<open>_execute_backtest_flow\<close> completes and leaves the result as it
  was initialised (provided the end date is not the last day a \<open>datetime\<close> can hold).
\<close>

theorem backtest_flow_leaves_result:
  "dt_ordinal (end_date result) < 3652059 \<Longrightarrow> execute_backtest_flow eng rd result = Inr result"
  by (simp add: execute_backtest_flow_def execute_backtest_loop_no_positions
      Portfolio_default_def)

theorem backtest_flow_leaves_result_witness:
  "map_sum id (\<lambda>r. (total_signals r, executed_trades r, trade_records r))
     (execute_backtest_flow default_engine calm_readings
        (initial_result default_engine (midnight 738886) (midnight 738890)))
     = Inr (0, 0, [])"
proof -
  let ?r = "initial_result default_engine (midnight 738886) (midnight 738890)"
  have "dt_ordinal (end_date ?r) < 3652059"
    by (simp add: initial_result_def midnight_def)
  from backtest_flow_leaves_result [OF this]
  have "execute_backtest_flow default_engine calm_readings ?r = Inr ?r" .
  then show ?thesis by (simp add: initial_result_def)
qed

end
